theory Spec2Isabelle
  imports Main
begin

section \<open>The document upload script (AddDatasets/addFile.py)\<close>

text \<open>
  A shallow embedding of \<^verbatim>\<open>addFile.py\<close>. The script reads a file system and talks to one
  HTTP endpoint; both are parameters of the model. Every \<^verbatim>\<open>raise\<close> is a value of type
  \<open>exn\<close>, every \<^verbatim>\<open>logger\<close> call and every \<^verbatim>\<open>requests.post\<close> call is an event of the
  trace a function returns beside its result.

  A Python \<^verbatim>\<open>str\<close> is the list of its code points, and the model covers the code points
  U+0000 to U+00FF: one \<open>char\<close> is one code point, so \<open>length\<close> is \<^verbatim>\<open>len\<close>. The bytes of
  a file opened in binary mode are \<open>char\<close>s as well.
\<close>

subsection \<open>Python values\<close>

text \<open>
  What \<^verbatim>\<open>response.json()\<close> returns. A Python dict is an association list with distinct
  keys. The script never looks inside a number, so integers stand for all of them.
\<close>

datatype json_value =
    JNull
  | JBool bool
  | JNumber int
  | JString string
  | JArray "json_value list"
  | JObject "(string \<times> json_value) list"

text \<open>
  A formatted string is kept as the sequence of its pieces, in order: the literal text of
  the (f-)string and the values interpolated into it. \<open>Lit\<close> is literal text, \<open>Str s\<close> is
  \<^verbatim>\<open>{s}\<close> for a string, \<open>Quoted s\<close> is \<^verbatim>\<open>{s!r}\<close>, \<open>Num n\<close> is \<^verbatim>\<open>{n}\<close> for an int,
  \<open>Fixed2 a b\<close> is \<^verbatim>\<open>{a / b:.2f}\<close> and \<open>Val v\<close> is \<^verbatim>\<open>{v}\<close> for a value parsed from JSON.
\<close>

datatype frag =
    Lit string
  | Str string
  | Quoted string
  | Num int
  | Fixed2 nat nat
  | Val json_value

type_synonym msg = "frag list"

subsection \<open>Exceptions\<close>

text \<open>
  The two exception classes of the script, the classes of \<^verbatim>\<open>requests.exceptions\<close> its
  handlers name, and the built-in ones its calls can raise. \<open>Timeout\<close> stands for
  \<^verbatim>\<open>Timeout\<close> and \<^verbatim>\<open>ReadTimeout\<close>; \<open>ConnectTimeout\<close> inherits from both \<^verbatim>\<open>ConnectionError\<close>
  and \<^verbatim>\<open>Timeout\<close>; \<open>JSONDecodeError\<close> is \<^verbatim>\<open>requests.exceptions.JSONDecodeError\<close>, what
  \<^verbatim>\<open>response.json()\<close> raises on a body that is not JSON (requests 2.27 and later), a
  \<^verbatim>\<open>RequestException\<close>; \<open>RequestException\<close> is any other class of that family.
  \<open>UnicodeDecodeError\<close> is a \<^verbatim>\<open>ValueError\<close>, \<open>IOError\<close> is \<^verbatim>\<open>OSError\<close> with all its
  subclasses, and \<open>OtherException\<close> is any other subclass of \<^verbatim>\<open>Exception\<close>.
\<close>

datatype exn =
    ConfigurationError msg
  | DocumentUploadError msg
  | IOError msg
  | AttributeError msg
  | UnicodeDecodeError string
  | Timeout string
  | ConnectTimeout string
  | ConnectionError string
  | JSONDecodeError string
  | RequestException string
  | OtherException string
  | KeyboardInterrupt
  | SystemExit int

fun isinstance_Timeout :: "exn \<Rightarrow> bool" where
  "isinstance_Timeout (Timeout s) = True"
| "isinstance_Timeout (ConnectTimeout s) = True"
| "isinstance_Timeout e = False"

fun isinstance_ConnectionError :: "exn \<Rightarrow> bool" where
  "isinstance_ConnectionError (ConnectionError s) = True"
| "isinstance_ConnectionError (ConnectTimeout s) = True"
| "isinstance_ConnectionError e = False"

fun isinstance_RequestException :: "exn \<Rightarrow> bool" where
  "isinstance_RequestException (Timeout s) = True"
| "isinstance_RequestException (ConnectTimeout s) = True"
| "isinstance_RequestException (ConnectionError s) = True"
| "isinstance_RequestException (JSONDecodeError s) = True"
| "isinstance_RequestException (RequestException s) = True"
| "isinstance_RequestException e = False"

text \<open>\<^verbatim>\<open>KeyboardInterrupt\<close> and \<^verbatim>\<open>SystemExit\<close> derive from \<^verbatim>\<open>BaseException\<close> only.\<close>

fun isinstance_Exception :: "exn \<Rightarrow> bool" where
  "isinstance_Exception KeyboardInterrupt = False"
| "isinstance_Exception (SystemExit n) = False"
| "isinstance_Exception e = True"

text \<open>\<^verbatim>\<open>str(e)\<close>, as \<^verbatim>\<open>f"...{e}"\<close> formats an exception.\<close>

fun str_exn :: "exn \<Rightarrow> msg" where
  "str_exn (ConfigurationError m) = m"
| "str_exn (DocumentUploadError m) = m"
| "str_exn (IOError m) = m"
| "str_exn (AttributeError m) = m"
| "str_exn (UnicodeDecodeError s) = [Str s]"
| "str_exn (Timeout s) = [Str s]"
| "str_exn (ConnectTimeout s) = [Str s]"
| "str_exn (ConnectionError s) = [Str s]"
| "str_exn (JSONDecodeError s) = [Str s]"
| "str_exn (RequestException s) = [Str s]"
| "str_exn (OtherException s) = [Str s]"
| "str_exn KeyboardInterrupt = []"
| "str_exn (SystemExit n) = [Num n]"

subsection \<open>Paths and the file system\<close>

text \<open>
  \<^verbatim>\<open>pathlib.Path\<close> on POSIX: a path is its root (\<^verbatim>\<open>''\<close>, \<^verbatim>\<open>'/'\<close> or \<^verbatim>\<open>'//'\<close>) and its
  components, with empty and \<^verbatim>\<open>'.'\<close> components dropped. Nothing is resolved against the
  working directory, and \<^verbatim>\<open>'..'\<close> stays.
\<close>

record path =
  root :: string
  parts :: "string list"

fun split_sep :: "string \<Rightarrow> string list" where
  "split_sep [] = [[]]"
| "split_sep (c # cs) =
     (if c = CHR ''/'' then [] # split_sep cs
      else (case split_sep cs of [] \<Rightarrow> [[c]] | x # xs \<Rightarrow> (c # x) # xs))"

definition Path :: "string \<Rightarrow> path" where
  "Path s =
     \<lparr> root = (if take 2 s = ''//'' \<and> take 3 s \<noteq> ''///'' then ''//''
               else if take 1 s = ''/'' then ''/'' else ''''),
       parts = filter (\<lambda>p. p \<noteq> '''' \<and> p \<noteq> ''.'') (split_sep s) \<rparr>"

definition is_absolute :: "path \<Rightarrow> bool" where
  "is_absolute p = (root p \<noteq> '''')"

definition name :: "path \<Rightarrow> string" where
  "name p = (if parts p = [] then '''' else last (parts p))"

text \<open>
  \<^verbatim>\<open>suffix\<close>: with \<^verbatim>\<open>i = name.rfind('.')\<close>, it is \<^verbatim>\<open>name[i:]\<close> when
  \<^verbatim>\<open>0 < i < len(name) - 1\<close> and \<^verbatim>\<open>''\<close> otherwise.
\<close>

definition suffix :: "path \<Rightarrow> string" where
  "suffix p =
     (let ext = rev (takeWhile (\<lambda>c. c \<noteq> CHR ''.'') (rev (name p)))
      in if CHR ''.'' \<in> set (name p) \<and> ext \<noteq> '''' \<and> Suc (length ext) < length (name p)
         then CHR ''.'' # ext else '''')"

definition str_path :: "path \<Rightarrow> string" where
  "str_path p =
     (if root p = '''' \<and> parts p = [] then ''.''
      else root p @ concat (case parts p of [] \<Rightarrow> [] | x # xs \<Rightarrow> x # map (\<lambda>y. CHR ''/'' # y) xs))"

text \<open>
  \<^verbatim>\<open>str.lower()\<close>: below U+0100 the upper-case letters are A to Z and U+00C0 to U+00DE
  without the multiplication sign U+00D7, each 32 below its lower-case letter.
\<close>

definition lower_char :: "char \<Rightarrow> char" where
  "lower_char c =
     (if ((65::nat) \<le> of_char c \<and> of_char c \<le> (90::nat))
         \<or> ((192::nat) \<le> of_char c \<and> of_char c \<le> (222::nat) \<and> of_char c \<noteq> (215::nat))
      then char_of (of_char c + (32::nat)) else c)"

definition lower :: "string \<Rightarrow> string" where
  "lower s = map lower_char s"

text \<open>
  What the script observes of a file: its kind, whether \<^verbatim>\<open>os.access(path, os.R_OK)\<close>
  holds, \<^verbatim>\<open>stat().st_size\<close>, its bytes (what a binary read gives), and what a read in
  text mode gives as far as \<^verbatim>\<open>readline()\<close> reads and decodes: the characters, or the
  exception raised (\<^verbatim>\<open>UnicodeDecodeError\<close> for bytes that are not text in the encoding
  in use).
\<close>

datatype file_kind = RegularFile | Directory

record inode =
  kind :: file_kind
  r_ok :: bool
  st_size :: nat
  content :: string
  decoded :: "exn + string"

text \<open>
  What \<^verbatim>\<open>os.stat\<close> makes of a path: there is no such file (\<^verbatim>\<open>ENOENT\<close>, \<^verbatim>\<open>ENOTDIR\<close>,
  \<^verbatim>\<open>EBADF\<close>, \<^verbatim>\<open>ELOOP\<close>), or the lookup itself fails with another \<^verbatim>\<open>OSError\<close> (a name
  that is too long, a directory on the way that may not be searched), or the file is found.
  \<^verbatim>\<open>Path.exists()\<close> and \<^verbatim>\<open>Path.is_file()\<close> answer \<^verbatim>\<open>False\<close> in the first case and raise
  the \<^verbatim>\<open>OSError\<close> again in the second (so \<^verbatim>\<open>pathlib\<close> does up to Python 3.13);
  \<^verbatim>\<open>open\<close> raises it too.
\<close>

datatype lookup = NoEntry | Refused msg | Entry inode

type_synonym filesystem = "path \<Rightarrow> lookup"

subsection \<open>Requests and responses\<close>

text \<open>The arguments of the one \<^verbatim>\<open>requests.post\<close> call, and the response as the script reads it.\<close>

record request =
  post_url :: string
  post_headers :: "(string \<times> string) list"
  post_files :: "(string \<times> string \<times> string \<times> string) list"
  post_data :: "(string \<times> string) list"
  post_timeout :: int

record response =
  status_code :: int
  body_text :: string
  json :: "exn + json_value"

type_synonym transport = "request \<Rightarrow> exn + response"

subsection \<open>Results with a trace\<close>

datatype level = DEBUG | INFO | WARNING | ERROR

datatype event = Log level msg | HttpPost request

type_synonym 'a result = "(exn + 'a) \<times> event list"

definition return :: "'a \<Rightarrow> 'a result" where
  "return x = (Inr x, [])"

definition raise :: "exn \<Rightarrow> 'a result" where
  "raise e = (Inl e, [])"

definition bind :: "'a result \<Rightarrow> ('a \<Rightarrow> 'b result) \<Rightarrow> 'b result" where
  "bind m f =
     (case m of
        (Inl e, ev) \<Rightarrow> (Inl e, ev)
      | (Inr x, ev) \<Rightarrow> (case f x of (r, ev') \<Rightarrow> (r, ev @ ev')))"

definition catch :: "'a result \<Rightarrow> (exn \<Rightarrow> 'a result) \<Rightarrow> 'a result" where
  "catch m h =
     (case m of
        (Inl e, ev) \<Rightarrow> (case h e of (r, ev') \<Rightarrow> (r, ev @ ev'))
      | (Inr x, ev) \<Rightarrow> (Inr x, ev))"

definition logger :: "level \<Rightarrow> msg \<Rightarrow> unit result" where
  "logger l m = (Inr (), [Log l m])"

definition logs :: "event list \<Rightarrow> (level \<times> msg) list" where
  "logs ev = concat (map (\<lambda>e. case e of Log l m \<Rightarrow> [(l, m)] | HttpPost r \<Rightarrow> []) ev)"

definition posts :: "event list \<Rightarrow> request list" where
  "posts ev = concat (map (\<lambda>e. case e of Log l m \<Rightarrow> [] | HttpPost r \<Rightarrow> [r]) ev)"

text \<open>
  \<^verbatim>\<open>open(path)\<close> for reading: \<^verbatim>\<open>FileNotFoundError\<close>, \<^verbatim>\<open>PermissionError\<close> and
  \<^verbatim>\<open>IsADirectoryError\<close> are \<^verbatim>\<open>OSError\<close>s, which \<^verbatim>\<open>IOError\<close> names.
\<close>

definition open_file :: "filesystem \<Rightarrow> path \<Rightarrow> inode result" where
  "open_file fs p =
     (case fs p of
        NoEntry \<Rightarrow> raise (IOError [Lit ''[Errno 2] No such file or directory: '', Quoted (str_path p)])
      | Refused m \<Rightarrow> raise (IOError m)
      | Entry st \<Rightarrow>
          if \<not> r_ok st then raise (IOError [Lit ''[Errno 13] Permission denied: '', Quoted (str_path p)])
          else if kind st = Directory
          then raise (IOError [Lit ''[Errno 21] Is a directory: '', Quoted (str_path p)])
          else return st)"

text \<open>\<^verbatim>\<open>open(path, 'rb')\<close>: the file's bytes, which \<^verbatim>\<open>requests\<close> reads as the upload body.\<close>

definition open_read :: "filesystem \<Rightarrow> path \<Rightarrow> string result" where
  "open_read fs p = bind (open_file fs p) (\<lambda>f. return (content f))"

subsection \<open>validate_file_path\<close>

definition validate_file_path :: "filesystem \<Rightarrow> string \<Rightarrow> path result" where
  "validate_file_path fs file_path =
     (let path = Path file_path in
      case fs path of
        Refused m \<Rightarrow> raise (IOError m)
      | NoEntry \<Rightarrow> raise (ConfigurationError [Lit ''File not found: '', Str file_path])
      | Entry st \<Rightarrow>
          if kind st \<noteq> RegularFile
          then raise (ConfigurationError [Lit ''Path is not a file: '', Str file_path])
          else if \<not> r_ok st
          then raise (ConfigurationError [Lit ''File is not readable: '', Str file_path])
          else
            let max_size = 100 * 1024 * 1024;
                file_size = st_size st
            in if file_size > max_size
               then raise (ConfigurationError
                      [Lit ''File too large: '', Fixed2 file_size (1024 * 1024), Lit ''MB (max: 100MB)''])
               else if file_size = 0
               then raise (ConfigurationError [Lit ''File is empty: '', Str file_path])
               else bind (logger INFO
                            [Lit ''File validated: '', Str file_path, Lit '' ('',
                             Fixed2 file_size 1024, Lit ''KB)''])
                      (\<lambda>_. return path))"

subsection \<open>load_api_key\<close>

text \<open>
  The file is opened in text mode: a line ends at \<^verbatim>\<open>'\n'\<close>, \<^verbatim>\<open>'\r'\<close> or \<^verbatim>\<open>'\r\n'\<close>, and
  \<^verbatim>\<open>readline()\<close> returns it with the one terminator \<^verbatim>\<open>'\n'\<close>, or raises what decoding
  raises. \<^verbatim>\<open>str.strip()\<close> drops the characters \<^verbatim>\<open>str.isspace()\<close> accepts from both ends;
  below U+0100 these are U+0009 to U+000D, U+001C to U+0020, U+0085 and U+00A0.
\<close>

fun readline :: "string \<Rightarrow> string" where
  "readline [] = []"
| "readline (c # cs) =
     (if c = CHR 0x0A \<or> c = CHR 0x0D then [CHR 0x0A] else c # readline cs)"

definition isspace :: "char \<Rightarrow> bool" where
  "isspace c =
     (c = CHR 0x20 \<or> c = CHR 0x09 \<or> c = CHR 0x0A \<or> c = CHR 0x0B \<or> c = CHR 0x0C \<or> c = CHR 0x0D
      \<or> c = CHR 0x1C \<or> c = CHR 0x1D \<or> c = CHR 0x1E \<or> c = CHR 0x1F
      \<or> c = CHR 0x85 \<or> c = CHR 0xA0)"

text \<open>\<^verbatim>\<open>f.readline()\<close> on a file opened in text mode.\<close>

definition file_readline :: "inode \<Rightarrow> string result" where
  "file_readline f = (case decoded f of Inl e \<Rightarrow> raise e | Inr t \<Rightarrow> return (readline t))"

definition strip :: "string \<Rightarrow> string" where
  "strip s = rev (dropWhile isspace (rev (dropWhile isspace s)))"

definition load_api_key :: "filesystem \<Rightarrow> string \<Rightarrow> string result" where
  "load_api_key fs credential_file =
     (let cred_path = Path credential_file in
      case fs cred_path of
        Refused m \<Rightarrow> raise (IOError m)
      | NoEntry \<Rightarrow>
          raise (ConfigurationError
             [Lit ''Credentials file not found: '', Str credential_file,
              Lit (CHR 0x0A # ''Please create this file with your API key on the first line.'')])
      | Entry st \<Rightarrow>
        catch
          (bind (open_file fs cred_path)
          (\<lambda>f. bind (file_readline f)
          (\<lambda>line. let api_key = strip line in
                if api_key = []
                then raise (ConfigurationError [Lit ''API key is empty in credentials file''])
                else if length api_key < 10
                then raise (ConfigurationError [Lit ''API key appears to be invalid (too short)''])
                else bind (logger INFO [Lit ''API key loaded successfully''])
                       (\<lambda>_. return api_key))))
          (\<lambda>e. case e of
                 IOError m \<Rightarrow> raise (ConfigurationError (Lit ''Error reading credentials file: '' # m))
               | _ \<Rightarrow> raise e))"

subsection \<open>validate_configuration\<close>

definition validate_configuration :: "string \<Rightarrow> string \<Rightarrow> string \<Rightarrow> unit result" where
  "validate_configuration org_id user_id mentor_id =
     (if org_id = []
      then raise (ConfigurationError [Lit ''Organization ID must be a non-empty string''])
      else if user_id = []
      then raise (ConfigurationError [Lit ''User ID must be a non-empty string''])
      else if mentor_id = []
      then raise (ConfigurationError [Lit ''Mentor ID must be a non-empty string''])
      else
        bind (if length mentor_id \<noteq> 36 \<or> count_list mentor_id (CHR ''-'') \<noteq> 4
              then logger WARNING
                     [Lit ''Mentor ID format looks unusual: '', Str mentor_id,
                      Lit (CHR 0x0A # ''Expected UUID format (e.g., 25223e76-fc94-4cc2-aec1-f9fb51f0c2bf)'')]
              else return ())
          (\<lambda>_. logger INFO
                  [Lit ''Configuration validated - Org: '', Str org_id, Lit '', User: '', Str user_id]))"

subsection \<open>upload_document\<close>

definition mime_types :: "(string \<times> string) list" where
  "mime_types =
     [(''.pdf'', ''application/pdf''),
      (''.txt'', ''text/plain''),
      (''.doc'', ''application/msword''),
      (''.docx'', ''application/vnd.openxmlformats-officedocument.wordprocessingml.document'')]"

text \<open>\<^verbatim>\<open>mime_types.get(file_extension, 'application/octet-stream')\<close>.\<close>

definition mime_type_of :: "string \<Rightarrow> string" where
  "mime_type_of file_extension =
     (case map_of mime_types file_extension of
        Some m \<Rightarrow> m
      | None \<Rightarrow> ''application/octet-stream'')"

text \<open>\<^verbatim>\<open>requests.post(...)\<close>: the call is an event of the trace, whatever comes back.\<close>

definition requests_post :: "transport \<Rightarrow> request \<Rightarrow> response result" where
  "requests_post post req = (post req, [HttpPost req])"

text \<open>\<^verbatim>\<open>response.json()\<close>.\<close>

definition response_json :: "response \<Rightarrow> json_value result" where
  "response_json r = (json r, [])"

text \<open>
  \<^verbatim>\<open>result.get('document_id', 'N/A')\<close>, formatted: only a dict has \<^verbatim>\<open>get\<close>; on any other
  value the attribute lookup raises \<^verbatim>\<open>AttributeError\<close>.
\<close>

definition get_document_id :: "json_value \<Rightarrow> frag result" where
  "get_document_id v =
     (case v of
        JObject d \<Rightarrow>
          (case map_of d ''document_id'' of Some x \<Rightarrow> return (Val x) | None \<Rightarrow> return (Str ''N/A''))
      | _ \<Rightarrow> raise (AttributeError [Lit ''object has no attribute '', Quoted ''get'']))"

text \<open>The three \<^verbatim>\<open>except\<close> clauses of \<^verbatim>\<open>upload_document\<close>, in the order of the source.\<close>

definition upload_except :: "int \<Rightarrow> exn \<Rightarrow> 'a result" where
  "upload_except timeout e =
     (if isinstance_Timeout e
      then raise (DocumentUploadError
             [Lit ''Upload timed out after '', Num timeout, Lit '' seconds. '',
              Lit ''The file may be too large or the server is slow to respond.''])
      else if isinstance_ConnectionError e
      then raise (DocumentUploadError (Lit ''Connection error: '' # str_exn e))
      else if isinstance_RequestException e
      then raise (DocumentUploadError (Lit ''Request failed: '' # str_exn e))
      else raise e)"

definition upload_document ::
  "filesystem \<Rightarrow> transport \<Rightarrow> string \<Rightarrow> string \<Rightarrow> string \<Rightarrow> path \<Rightarrow> string \<Rightarrow> string \<Rightarrow> int
     \<Rightarrow> json_value result" where
  "upload_document fs post org_id user_id mentor_id file_path api_key base_url timeout =
     (let url = base_url @ ''/api/ai-index/orgs/'' @ org_id @ ''/users/'' @ user_id @ ''/documents/train/'';
          headers = [(''Authorization'', ''Api-Token '' @ api_key)];
          file_extension = lower (suffix file_path);
          mime_type = mime_type_of file_extension;
          doc_type = ''file''
      in
      bind (if mime_type = ''application/octet-stream''
            then logger WARNING
                   [Lit ''Unknown file type: '', Str file_extension, Lit '', using generic MIME type'']
            else return ())
     (\<lambda>_. bind (logger INFO [Lit ''Uploading document: '', Str (name file_path)])
     (\<lambda>_. bind (logger INFO [Lit ''Target URL: '', Str url])
     (\<lambda>_. bind (logger INFO [Lit ''Document type: '', Str doc_type, Lit '', MIME type: '', Str mime_type])
     (\<lambda>_. catch
        (bind (open_read fs file_path)
        (\<lambda>f. bind (requests_post post
                     \<lparr> post_url = url,
                       post_headers = headers,
                       post_files = [(''file'', name file_path, f, mime_type)],
                       post_data = [(''pathway'', mentor_id), (''type'', doc_type),
                                    (''name'', name file_path)],
                       post_timeout = timeout \<rparr>)
        (\<lambda>response.
           if status_code response = 200 \<or> status_code response = 201
           then
             bind (response_json response)
             (\<lambda>result. bind (logger INFO [Lit ''Upload successful!''])
             (\<lambda>_. bind (get_document_id result)
             (\<lambda>document_id. bind (logger INFO [Lit ''Document ID: '', document_id])
             (\<lambda>_. return result))))
           else
             let error_msg =
                   [Lit ''Upload failed with status '', Num (status_code response)] @
                   (case json response of
                      Inr error_detail \<Rightarrow> [Lit (CHR 0x0A # ''Details: ''), Val error_detail]
                    | Inl e \<Rightarrow> [Lit (CHR 0x0A # ''Response: ''), Str (body_text response)])
             in bind (logger ERROR error_msg)
                  (\<lambda>_. raise (DocumentUploadError error_msg)))))
        (upload_except timeout))))))"

subsection \<open>parse_arguments and main\<close>

text \<open>
  The \<^verbatim>\<open>Namespace\<close> that \<^verbatim>\<open>parser.parse_args()\<close> returns. \<^verbatim>\<open>parse_arguments\<close> then checks
  the timeout; \<^verbatim>\<open>parser.error\<close> prints the usage to stderr and calls \<^verbatim>\<open>sys.exit(2)\<close>.
\<close>

record namespace =
  args_org_id :: string
  args_user_id :: string
  args_mentor_id :: string
  args_file :: string
  args_credentials :: string
  args_base_url :: string
  args_timeout :: int
  args_verbose :: bool

definition parse_arguments :: "namespace \<Rightarrow> namespace result" where
  "parse_arguments args = (if args_timeout args < 1 then raise (SystemExit 2) else return args)"

text \<open>The body of the \<^verbatim>\<open>try\<close> block of \<^verbatim>\<open>main\<close>.\<close>

definition main_try :: "filesystem \<Rightarrow> transport \<Rightarrow> namespace \<Rightarrow> int result" where
  "main_try fs post args =
     bind (validate_configuration (args_org_id args) (args_user_id args) (args_mentor_id args))
     (\<lambda>_. bind (load_api_key fs (args_credentials args))
     (\<lambda>api_key. bind (validate_file_path fs (args_file args))
     (\<lambda>validated_path.
        bind (upload_document fs post (args_org_id args) (args_user_id args) (args_mentor_id args)
                validated_path api_key (args_base_url args) (args_timeout args))
     (\<lambda>result. bind (logger INFO [Lit (replicate 60 (CHR ''=''))])
     (\<lambda>_. bind (logger INFO [Lit ''Script completed successfully!''])
     (\<lambda>_. bind (logger INFO [Lit (replicate 60 (CHR ''=''))])
     (\<lambda>_. return 0)))))))"

text \<open>The \<^verbatim>\<open>except\<close> clauses of \<^verbatim>\<open>main\<close>, in the order of the source.\<close>

definition main_except :: "exn \<Rightarrow> int result" where
  "main_except e =
     (case e of
        ConfigurationError m \<Rightarrow>
          bind (logger ERROR (Lit ''Configuration Error: '' # m))
          (\<lambda>_. bind (logger ERROR [Lit ''Please check your settings and try again.''])
          (\<lambda>_. return 1))
      | DocumentUploadError m \<Rightarrow>
          bind (logger ERROR (Lit ''Upload Error: '' # m)) (\<lambda>_. return 1)
      | KeyboardInterrupt \<Rightarrow>
          bind (logger WARNING [Lit (CHR 0x0A # ''Script interrupted by user'')]) (\<lambda>_. return 130)
      | _ \<Rightarrow>
          if isinstance_Exception e
          then bind (logger ERROR (Lit ''Unexpected error: '' # str_exn e)) (\<lambda>_. return 1)
          else raise e)"

definition main :: "filesystem \<Rightarrow> transport \<Rightarrow> namespace \<Rightarrow> int result" where
  "main fs post ns =
     bind (parse_arguments ns)
     (\<lambda>args. bind (if args_verbose args then logger DEBUG [Lit ''Verbose logging enabled''] else return ())
     (\<lambda>_. bind (logger INFO [Lit (replicate 60 (CHR ''=''))])
     (\<lambda>_. bind (logger INFO [Lit ''Document Upload Script Started''])
     (\<lambda>_. bind (logger INFO [Lit (replicate 60 (CHR ''=''))])
     (\<lambda>_. bind (logger INFO [Lit ''Organization: '', Str (args_org_id args)])
     (\<lambda>_. bind (logger INFO [Lit ''User: '', Str (args_user_id args)])
     (\<lambda>_. bind (logger INFO [Lit ''Mentor ID: '', Str (args_mentor_id args)])
     (\<lambda>_. bind (logger INFO [Lit ''File: '', Str (args_file args)])
     (\<lambda>_. bind (logger INFO [Lit ''Base URL: '', Str (args_base_url args)])
     (\<lambda>_. bind (logger INFO [Lit ''Timeout: '', Num (args_timeout args), Lit ''s''])
     (\<lambda>_. catch (main_try fs post args) main_except)))))))))))"


subsection \<open>The answer of the endpoint\<close>

text \<open>
  What \<^verbatim>\<open>upload_document\<close> does once \<^verbatim>\<open>requests.post\<close> has returned or raised: the rest of
  its \<^verbatim>\<open>try\<close> block, from the status check on, under its three \<^verbatim>\<open>except\<close> clauses. The
  lemma \<open>upload_document_eq\<close> below shows that \<^verbatim>\<open>upload_document\<close> is this, after its
  first log lines and the call itself.
\<close>

definition handle_response :: "int \<Rightarrow> exn + response \<Rightarrow> json_value result" where
  "handle_response timeout answer =
     catch
       (bind (answer, [])
        (\<lambda>response.
           if status_code response = 200 \<or> status_code response = 201
           then
             bind (response_json response)
             (\<lambda>result. bind (logger INFO [Lit ''Upload successful!''])
             (\<lambda>_. bind (get_document_id result)
             (\<lambda>document_id. bind (logger INFO [Lit ''Document ID: '', document_id])
             (\<lambda>_. return result))))
           else
             let error_msg =
                   [Lit ''Upload failed with status '', Num (status_code response)] @
                   (case json response of
                      Inr error_detail \<Rightarrow> [Lit (CHR 0x0A # ''Details: ''), Val error_detail]
                    | Inl e \<Rightarrow> [Lit (CHR 0x0A # ''Response: ''), Str (body_text response)])
             in bind (logger ERROR error_msg)
                  (\<lambda>_. raise (DocumentUploadError error_msg))))
       (upload_except timeout)"

section \<open>Properties\<close>

subsection \<open>Running a result, reading a trace\<close>

lemmas monad_defs = return_def raise_def bind_def catch_def logger_def

lemma bind_Inr: "bind (Inr x, ev) f = (fst (f x), ev @ snd (f x))"
  by (simp add: bind_def split: prod.split)

lemma bind_Inl: "bind (Inl e, ev) f = (Inl e, ev)"
  by (simp add: bind_def)

lemma catch_Inl: "catch (Inl e, ev) h = (fst (h e), ev @ snd (h e))"
  by (simp add: catch_def split: prod.split)

lemma catch_Inr: "catch (Inr x, ev) h = (Inr x, ev)"
  by (simp add: catch_def)

lemmas run_simps = bind_Inr bind_Inl catch_Inl catch_Inr return_def raise_def logger_def

lemma logs_simps:
  "logs [] = []"
  "logs (Log l m # ev) = (l, m) # logs ev"
  "logs (HttpPost r # ev) = logs ev"
  "logs (ev @ ev') = logs ev @ logs ev'"
  by (simp_all add: logs_def)

lemma posts_simps:
  "posts [] = []"
  "posts (Log l m # ev) = posts ev"
  "posts (HttpPost r # ev) = r # posts ev"
  "posts (ev @ ev') = posts ev @ posts ev'"
  by (simp_all add: posts_def)

lemma open_file_regular:
  assumes "fs p = Entry st" and "r_ok st" and "kind st = RegularFile"
  shows "open_file fs p = (Inr st, [])"
  using assms by (simp add: open_file_def return_def)

lemma open_read_regular:
  assumes "fs p = Entry st" and "r_ok st" and "kind st = RegularFile"
  shows "open_read fs p = (Inr (content st), [])"
  using assms by (simp add: open_read_def open_file_def run_simps)

subsection \<open>File validation\<close>

text \<open>When the lookup of the path itself fails, \<^verbatim>\<open>path.exists()\<close> raises and nothing catches it.\<close>

lemma validate_file_path_refused:
  "fs (Path file_path) = Refused m \<Longrightarrow> validate_file_path fs file_path = (Inl (IOError m), [])"
  by (simp add: validate_file_path_def raise_def)

text \<open>
  C1 (as amended). Whenever the lookup of the path answers (the file is found, or there is
  no such file), \<^verbatim>\<open>validate_file_path\<close> raises \<^verbatim>\<open>ConfigurationError\<close> if and only if the
  path does not exist, is not a regular file, is not readable, is empty, or is larger than
  104,857,600 bytes, and it raises nothing else. In every other case (so also for a
  readable regular file of exactly 104,857,600 bytes) it returns \<^verbatim>\<open>Path(file_path)\<close>, the
  path as it was given and not resolved; the size is not part of the result, it only shows
  in the one line logged. No network call is made.
\<close>

theorem validate_file_path_spec:
  "(\<forall>m. fs (Path file_path) \<noteq> Refused m) \<longrightarrow>
   ((\<exists>m. fst (validate_file_path fs file_path) = Inl (ConfigurationError m)) \<longleftrightarrow>
      (fs (Path file_path) = NoEntry \<or>
       (\<exists>st. fs (Path file_path) = Entry st \<and>
          (kind st \<noteq> RegularFile \<or> \<not> r_ok st \<or> st_size st = 0 \<or> 104857600 < st_size st))))
   \<and> (fst (validate_file_path fs file_path) = Inr (Path file_path) \<longleftrightarrow>
      (\<exists>st. fs (Path file_path) = Entry st \<and> kind st = RegularFile \<and> r_ok st
          \<and> 0 < st_size st \<and> st_size st \<le> 104857600))
   \<and> ((\<exists>m. fst (validate_file_path fs file_path) = Inl (ConfigurationError m))
        \<or> fst (validate_file_path fs file_path) = Inr (Path file_path))
   \<and> (\<forall>st. fs (Path file_path) = Entry st
              \<and> fst (validate_file_path fs file_path) = Inr (Path file_path) \<longrightarrow>
          snd (validate_file_path fs file_path) =
            [Log INFO [Lit ''File validated: '', Str file_path, Lit '' ('',
                       Fixed2 (st_size st) 1024, Lit ''KB)'']])
   \<and> posts (snd (validate_file_path fs file_path)) = []"
  by (cases "fs (Path file_path)")
     (auto simp add: validate_file_path_def monad_defs posts_def Let_def)

text \<open>The boundary: a readable regular file of exactly 104,857,600 bytes is accepted.\<close>

theorem validate_file_path_spec_witness:
  "fst (validate_file_path
          (\<lambda>p. if p = Path ''report.pdf''
                then Entry \<lparr>kind = RegularFile, r_ok = True, st_size = 104857600,
                            content = '''', decoded = Inr ''''\<rparr>
                else NoEntry)
          ''report.pdf'') = Inr (Path ''report.pdf'')
   \<and> snd (validate_file_path
          (\<lambda>p. if p = Path ''report.pdf''
                then Entry \<lparr>kind = RegularFile, r_ok = True, st_size = 104857600,
                            content = '''', decoded = Inr ''''\<rparr>
                else NoEntry)
          ''report.pdf'') =
       [Log INFO [Lit ''File validated: '', Str ''report.pdf'', Lit '' ('',
                  Fixed2 104857600 1024, Lit ''KB)'']]"
  using validate_file_path_spec
    [of "\<lambda>p. if p = Path ''report.pdf''
              then Entry \<lparr>kind = RegularFile, r_ok = True, st_size = 104857600,
                          content = '''', decoded = Inr ''''\<rparr>
              else NoEntry"
        "''report.pdf''"]
  by simp

text \<open>
  C1 as stated fails on the returned value: for the relative name \<^verbatim>\<open>report.pdf\<close> the
  function returns the relative path \<^verbatim>\<open>report.pdf\<close>, which has no root, where a resolved
  path (\<^verbatim>\<open>Path.resolve()\<close>) is absolute.
\<close>

theorem validate_file_path_unresolved:
  "fst (validate_file_path
          (\<lambda>p. if p = Path ''report.pdf''
                then Entry \<lparr>kind = RegularFile, r_ok = True, st_size = 2048,
                            content = '''', decoded = Inr ''''\<rparr>
                else NoEntry)
          ''report.pdf'') = Inr \<lparr>root = '''', parts = [''report.pdf'']\<rparr>
   \<and> \<not> is_absolute \<lparr>root = '''', parts = [''report.pdf'']\<rparr>"
  by (simp add: validate_file_path_def monad_defs Let_def is_absolute_def Path_def)

subsection \<open>Loading the API key\<close>

text \<open>\<^verbatim>\<open>load_api_key\<close>, outcome by outcome.\<close>

lemma load_api_key_eq:
  "load_api_key fs credential_file =
     (case fs (Path credential_file) of
        Refused m \<Rightarrow> (Inl (IOError m), [])
      | NoEntry \<Rightarrow>
          (Inl (ConfigurationError
             [Lit ''Credentials file not found: '', Str credential_file,
              Lit (CHR 0x0A # ''Please create this file with your API key on the first line.'')]), [])
      | Entry st \<Rightarrow>
          if \<not> r_ok st
          then (Inl (ConfigurationError
                  [Lit ''Error reading credentials file: '', Lit ''[Errno 13] Permission denied: '',
                   Quoted (str_path (Path credential_file))]), [])
          else if kind st = Directory
          then (Inl (ConfigurationError
                  [Lit ''Error reading credentials file: '', Lit ''[Errno 21] Is a directory: '',
                   Quoted (str_path (Path credential_file))]), [])
          else (case decoded st of
                  Inl e \<Rightarrow>
                    (Inl (case e of
                            IOError m \<Rightarrow> ConfigurationError (Lit ''Error reading credentials file: '' # m)
                          | _ \<Rightarrow> e), [])
                | Inr t \<Rightarrow>
                    if strip (readline t) = []
                    then (Inl (ConfigurationError [Lit ''API key is empty in credentials file'']), [])
                    else if length (strip (readline t)) < 10
                    then (Inl (ConfigurationError [Lit ''API key appears to be invalid (too short)'']), [])
                    else (Inr (strip (readline t)), [Log INFO [Lit ''API key loaded successfully'']])))"
proof (cases "fs (Path credential_file)")
  case NoEntry
  then show ?thesis by (simp add: load_api_key_def raise_def)
next
  case (Refused m)
  then show ?thesis by (simp add: load_api_key_def raise_def)
next
  case (Entry st)
  show ?thesis
  proof (cases "decoded st")
    case (Inl e)
    with Entry show ?thesis
      by (cases e)
         (simp_all add: load_api_key_def open_file_def file_readline_def run_simps Let_def)
  next
    case (Inr t)
    with Entry show ?thesis
      by (simp add: load_api_key_def open_file_def file_readline_def run_simps Let_def)
  qed
qed

text \<open>The first line: up to the first line end, whatever follows it.\<close>

lemma readline_line:
  "CHR 0x0A \<notin> set l \<Longrightarrow> CHR 0x0D \<notin> set l \<Longrightarrow> readline (l @ CHR 0x0A # rest) = l @ [CHR 0x0A]"
  by (induction l) auto

lemma readline_last_line:
  "CHR 0x0A \<notin> set l \<Longrightarrow> CHR 0x0D \<notin> set l \<Longrightarrow> readline l = l"
  by (induction l) auto

lemma list_all_takeWhile: "list_all P (takeWhile P xs)"
  by (induction xs) auto

lemma strip_decompose:
  "s = takeWhile isspace s @ strip s @ rev (takeWhile isspace (rev (dropWhile isspace s)))"
proof -
  let ?t = "dropWhile isspace s"
  have "rev (takeWhile isspace (rev ?t) @ dropWhile isspace (rev ?t)) = rev (rev ?t)"
    by (simp only: takeWhile_dropWhile_id)
  then have "strip s @ rev (takeWhile isspace (rev ?t)) = ?t"
    by (simp only: rev_append rev_rev_ident strip_def)
  moreover have "takeWhile isspace s @ ?t = s" by (rule takeWhile_dropWhile_id)
  ultimately show ?thesis by simp
qed

text \<open>Trimming removes whitespace only, and leaves none at either end.\<close>

lemma strip_trimmed:
  "\<exists>pre suf. s = pre @ strip s @ suf \<and> list_all isspace pre \<and> list_all isspace suf
     \<and> (strip s = [] \<or> (\<not> isspace (hd (strip s)) \<and> \<not> isspace (last (strip s))))"
proof -
  let ?t = "dropWhile isspace s"
  let ?u = "dropWhile isspace (rev ?t)"
  have ends: "strip s = [] \<or> (\<not> isspace (hd (strip s)) \<and> \<not> isspace (last (strip s)))"
  proof (cases "strip s = []")
    case True
    then show ?thesis by simp
  next
    case False
    then have u: "?u \<noteq> []" by (simp add: strip_def)
    then have "\<not> isspace (hd ?u)" by (rule hd_dropWhile)
    moreover have "last (strip s) = hd ?u" using u by (simp add: strip_def last_rev)
    ultimately have l: "\<not> isspace (last (strip s))" by simp
    from u have t: "?t \<noteq> []" by (metis dropWhile.simps(1) rev.simps(1))
    then have ht: "\<not> isspace (hd ?t)" by (rule hd_dropWhile)
    have "rev (takeWhile isspace (rev ?t) @ dropWhile isspace (rev ?t)) = rev (rev ?t)"
      by (simp only: takeWhile_dropWhile_id)
    then have "strip s @ rev (takeWhile isspace (rev ?t)) = ?t"
      by (simp only: rev_append rev_rev_ident strip_def)
    then have "hd ?t = hd (strip s)" using False by (metis hd_append2)
    with ht l show ?thesis by simp
  qed
  have "list_all isspace (takeWhile isspace s)" by (rule list_all_takeWhile)
  moreover have "list_all isspace (rev (takeWhile isspace (rev ?t)))"
    by (simp add: list_all_takeWhile)
  ultimately show ?thesis using strip_decompose [of s] ends by blast
qed

text \<open>
  Where the credential file is found and its text decodes, \<^verbatim>\<open>load_api_key\<close> does what C5
  says: \<^verbatim>\<open>ConfigurationError\<close> exactly for a file that cannot be opened or whose first line,
  trimmed, is empty or shorter than 10 characters, and the trimmed first line otherwise.
\<close>

lemma load_api_key_decoded:
  assumes "fs (Path credential_file) = Entry st" and "decoded st = Inr t"
  shows "((\<exists>m. fst (load_api_key fs credential_file) = Inl (ConfigurationError m)) \<longleftrightarrow>
            (\<not> r_ok st \<or> kind st = Directory \<or> strip (readline t) = []
             \<or> length (strip (readline t)) < 10))
       \<and> (fst (load_api_key fs credential_file) = Inr (strip (readline t)) \<longleftrightarrow>
            (r_ok st \<and> kind st = RegularFile \<and> 10 \<le> length (strip (readline t))))"
  using assms by (cases "kind st") (auto simp add: load_api_key_eq)

text \<open>
  C5 fails on the code in two ways, both outside what \<^verbatim>\<open>except IOError\<close> covers. A
  credential file with a good first line and, after it, bytes that do not decode makes
  \<^verbatim>\<open>readline()\<close> raise \<^verbatim>\<open>UnicodeDecodeError\<close>, a \<^verbatim>\<open>ValueError\<close>: the key is not returned
  and no \<^verbatim>\<open>ConfigurationError\<close> is raised. A credential path whose lookup fails makes
  \<^verbatim>\<open>cred_path.exists()\<close>, which stands before the \<^verbatim>\<open>try\<close>, raise the \<^verbatim>\<open>OSError\<close> itself.
\<close>

theorem load_api_key_undecodable:
  "load_api_key
     (\<lambda>p. if p = Path ''api_credentials.txt''
           then Entry \<lparr>kind = RegularFile, r_ok = True, st_size = 21,
                       content = ''sk-0123456789abcdef'' @ [CHR 0x0A, CHR 0xFF],
                       decoded = Inl (UnicodeDecodeError ''invalid start byte'')\<rparr>
           else NoEntry)
     ''api_credentials.txt''
     = (Inl (UnicodeDecodeError ''invalid start byte''), [])
   \<and> load_api_key
     (\<lambda>p. if p = Path ''secret/api_credentials.txt''
           then Refused [Lit ''[Errno 13] Permission denied: '', Quoted ''secret/api_credentials.txt'']
           else NoEntry)
     ''secret/api_credentials.txt''
     = (Inl (IOError [Lit ''[Errno 13] Permission denied: '',
                      Quoted ''secret/api_credentials.txt'']), [])"
  by (simp add: load_api_key_eq)

subsection \<open>The upload\<close>

lemma upload_except_eq:
  "upload_except timeout e =
     (Inl (if isinstance_Timeout e
           then DocumentUploadError
                  [Lit ''Upload timed out after '', Num timeout, Lit '' seconds. '',
                   Lit ''The file may be too large or the server is slow to respond.'']
           else if isinstance_ConnectionError e
           then DocumentUploadError (Lit ''Connection error: '' # str_exn e)
           else if isinstance_RequestException e
           then DocumentUploadError (Lit ''Request failed: '' # str_exn e)
           else e), [])"
  by (simp add: upload_except_def raise_def)

lemma get_document_id_eq:
  "get_document_id v =
     (case v of
        JObject d \<Rightarrow> (Inr (case map_of d ''document_id'' of Some x \<Rightarrow> Val x | None \<Rightarrow> Str ''N/A''), [])
      | _ \<Rightarrow> (Inl (AttributeError [Lit ''object has no attribute '', Quoted ''get'']), []))"
  by (cases v) (simp_all add: get_document_id_def return_def raise_def split: option.split)

lemma handle_response_raised:
  "handle_response timeout (Inl e) = upload_except timeout e"
  by (simp add: handle_response_def run_simps upload_except_eq)

lemma handle_response_failed:
  "status_code r \<noteq> 200 \<Longrightarrow> status_code r \<noteq> 201 \<Longrightarrow>
   handle_response timeout (Inr r) =
     (Inl (DocumentUploadError
            ([Lit ''Upload failed with status '', Num (status_code r)] @
             (case json r of
                Inr error_detail \<Rightarrow> [Lit (CHR 0x0A # ''Details: ''), Val error_detail]
              | Inl e \<Rightarrow> [Lit (CHR 0x0A # ''Response: ''), Str (body_text r)]))),
      [Log ERROR
         ([Lit ''Upload failed with status '', Num (status_code r)] @
          (case json r of
             Inr error_detail \<Rightarrow> [Lit (CHR 0x0A # ''Details: ''), Val error_detail]
           | Inl e \<Rightarrow> [Lit (CHR 0x0A # ''Response: ''), Str (body_text r)]))])"
  by (simp add: handle_response_def run_simps upload_except_eq Let_def)

lemma handle_response_undecoded:
  "status_code r = 200 \<or> status_code r = 201 \<Longrightarrow> json r = Inl e \<Longrightarrow>
   handle_response timeout (Inr r) = upload_except timeout e"
  by (simp add: handle_response_def run_simps upload_except_eq response_json_def)

lemma handle_response_object:
  "status_code r = 200 \<or> status_code r = 201 \<Longrightarrow> json r = Inr (JObject d) \<Longrightarrow>
   handle_response timeout (Inr r) =
     (Inr (JObject d),
      [Log INFO [Lit ''Upload successful!''],
       Log INFO [Lit ''Document ID: '',
                 case map_of d ''document_id'' of Some x \<Rightarrow> Val x | None \<Rightarrow> Str ''N/A'']])"
  by (simp add: handle_response_def run_simps response_json_def get_document_id_eq)

lemma handle_response_other:
  "status_code r = 200 \<or> status_code r = 201 \<Longrightarrow> json r = Inr v \<Longrightarrow> \<forall>d. v \<noteq> JObject d \<Longrightarrow>
   handle_response timeout (Inr r) =
     (Inl (AttributeError [Lit ''object has no attribute '', Quoted ''get'']),
      [Log INFO [Lit ''Upload successful!'']])"
  by (cases v)
     (simp_all add: handle_response_def run_simps response_json_def get_document_id_eq upload_except_eq)

lemma upload_document_eq:
  "upload_document fs post org_id user_id mentor_id file_path api_key base_url timeout =
     (let url = base_url @ ''/api/ai-index/orgs/'' @ org_id @ ''/users/'' @ user_id @ ''/documents/train/'';
          mime_type = mime_type_of (lower (suffix file_path));
          intro =
            (if mime_type = ''application/octet-stream''
             then [Log WARNING [Lit ''Unknown file type: '', Str (lower (suffix file_path)),
                                Lit '', using generic MIME type'']]
             else []) @
            [Log INFO [Lit ''Uploading document: '', Str (name file_path)],
             Log INFO [Lit ''Target URL: '', Str url],
             Log INFO [Lit ''Document type: '', Str ''file'', Lit '', MIME type: '', Str mime_type]]
      in case fst (open_read fs file_path) of
           Inl e \<Rightarrow> (fst (upload_except timeout e), intro)
         | Inr f \<Rightarrow>
             let req = \<lparr> post_url = url,
                         post_headers = [(''Authorization'', ''Api-Token '' @ api_key)],
                         post_files = [(''file'', name file_path, f, mime_type)],
                         post_data = [(''pathway'', mentor_id), (''type'', ''file''),
                                      (''name'', name file_path)],
                         post_timeout = timeout \<rparr>
             in (fst (handle_response timeout (post req)),
                 intro @ HttpPost req # snd (handle_response timeout (post req))))"
proof -
  have ev_open: "snd (open_read fs file_path) = []"
    by (cases "fs file_path") (simp_all add: open_read_def open_file_def run_simps)
  obtain a where op: "open_read fs file_path = (a, [])"
    using ev_open by (cases "open_read fs file_path") simp
  show ?thesis
  proof (cases a)
    case (Inl e)
    with op show ?thesis
      by (simp add: upload_document_def Let_def run_simps upload_except_eq split: if_split)
  next
    case a: (Inr f)
    let ?req = "\<lparr> post_url = base_url @ ''/api/ai-index/orgs/'' @ org_id @ ''/users/'' @ user_id @ ''/documents/train/'',
                         post_headers = [(''Authorization'', ''Api-Token '' @ api_key)],
                         post_files = [(''file'', name file_path, f, mime_type_of (lower (suffix file_path)))],
                         post_data = [(''pathway'', mentor_id), (''type'', ''file''),
                                      (''name'', name file_path)],
                         post_timeout = timeout \<rparr>"
    show ?thesis
    proof (cases "post ?req")
      case (Inl e)
      with op a show ?thesis
        by (simp add: upload_document_def handle_response_raised Let_def run_simps requests_post_def
              upload_except_eq split: if_split)
    next
      case p: (Inr r)
      show ?thesis
      proof (cases "status_code r = 200 \<or> status_code r = 201")
        case False
        with op a p show ?thesis
          by (simp add: upload_document_def handle_response_failed Let_def run_simps requests_post_def
                upload_except_eq split: if_split)
      next
        case True
        show ?thesis
        proof (cases "json r")
          case (Inl e)
          with op a p True show ?thesis
            by (simp add: upload_document_def handle_response_undecoded [OF True] Let_def run_simps
                  requests_post_def response_json_def upload_except_eq split: if_split)
        next
          case j: (Inr v)
          show ?thesis
          proof (cases "\<exists>d. v = JObject d")
            case True
            then obtain d where "v = JObject d" ..
            with op a p \<open>status_code r = 200 \<or> status_code r = 201\<close> j show ?thesis
              by (simp add: upload_document_def
                    handle_response_object [OF \<open>status_code r = 200 \<or> status_code r = 201\<close>]
                    Let_def run_simps requests_post_def response_json_def get_document_id_eq
                    split: if_split)
          next
            case False
            then have nd: "\<forall>d. v \<noteq> JObject d" by simp
            have g: "get_document_id v =
                       (Inl (AttributeError [Lit ''object has no attribute '', Quoted ''get'']), [])"
              using nd by (cases v) (simp_all add: get_document_id_eq)
            from op a p True j show ?thesis
              by (simp add: upload_document_def handle_response_other [OF True j nd] g
                    Let_def run_simps requests_post_def response_json_def upload_except_eq
                    split: if_split)
          qed
        qed
      qed
    qed
  qed
qed

lemma handle_response_events:
  "posts (snd (handle_response timeout a)) = []
   \<and> (\<forall>m. (WARNING, m) \<notin> set (logs (snd (handle_response timeout a))))"
proof (cases a)
  case (Inl e)
  then show ?thesis
    by (simp add: handle_response_raised upload_except_eq posts_simps logs_simps)
next
  case (Inr r)
  show ?thesis
  proof (cases "status_code r = 200 \<or> status_code r = 201")
    case False
    with Inr show ?thesis
      by (simp add: handle_response_failed posts_simps logs_simps)
  next
    case True
    show ?thesis
    proof (cases "json r")
      case (Inl e)
      with Inr show ?thesis
        by (simp add: handle_response_undecoded [OF True] upload_except_eq posts_simps logs_simps)
    next
      case j: (Inr v)
      show ?thesis
      proof (cases "\<exists>d. v = JObject d")
        case True
        then obtain d where "v = JObject d" ..
        with j have "json r = Inr (JObject d)" by simp
        with Inr show ?thesis
          by (simp add: handle_response_object [OF \<open>status_code r = 200 \<or> status_code r = 201\<close>]
                posts_simps logs_simps)
      next
        case False
        then have "\<forall>d. v \<noteq> JObject d" by simp
        with Inr show ?thesis
          by (simp add: handle_response_other [OF True j] posts_simps logs_simps)
      qed
    qed
  qed
qed

lemma upload_document_fst:
  assumes "fs file_path = Entry st" and "r_ok st" and "kind st = RegularFile"
  shows "fst (upload_document fs (\<lambda>req. answer) org_id user_id mentor_id file_path api_key base_url timeout)
           = fst (handle_response timeout answer)"
  by (simp add: upload_document_eq open_read_regular [of fs file_path st, OF assms] Let_def)

lemma mime_type_of_table:
  "mime_type_of e =
     (if e = ''.pdf'' then ''application/pdf''
      else if e = ''.txt'' then ''text/plain''
      else if e = ''.doc'' then ''application/msword''
      else if e = ''.docx''
      then ''application/vnd.openxmlformats-officedocument.wordprocessingml.document''
      else ''application/octet-stream'')"
  by (simp add: mime_type_of_def mime_types_def)

lemma mime_type_unknown:
  "(mime_type_of e = ''application/octet-stream'') \<longleftrightarrow> e \<notin> {''.pdf'', ''.txt'', ''.doc'', ''.docx''}"
  by (simp add: mime_type_of_table)

lemma upload_document_posts:
  assumes "fs file_path = Entry st" and "r_ok st" and "kind st = RegularFile"
  shows "posts (snd (upload_document fs post org_id user_id mentor_id file_path api_key base_url timeout)) =
       [\<lparr> post_url = base_url @ ''/api/ai-index/orgs/'' @ org_id @ ''/users/'' @ user_id
                       @ ''/documents/train/'',
           post_headers = [(''Authorization'', ''Api-Token '' @ api_key)],
           post_files = [(''file'', name file_path, content st, mime_type_of (lower (suffix file_path)))],
           post_data = [(''pathway'', mentor_id), (''type'', ''file''), (''name'', name file_path)],
           post_timeout = timeout \<rparr>]"
  by (simp add: upload_document_eq open_read_regular [of fs file_path st, OF assms] Let_def posts_simps
        handle_response_events)

lemma upload_document_warning:
  assumes "fs file_path = Entry st" and "r_ok st" and "kind st = RegularFile"
  shows "(\<exists>m. (WARNING, m) \<in> set (logs (snd (upload_document fs post org_id user_id mentor_id
                     file_path api_key base_url timeout))))
          \<longleftrightarrow> mime_type_of (lower (suffix file_path)) = ''application/octet-stream''"
  by (simp add: upload_document_eq open_read_regular [of fs file_path st, OF assms] Let_def logs_simps
        handle_response_events)

text \<open>
  C6. For a file that is there, regular and readable (what validation has checked),
  \<^verbatim>\<open>upload_document\<close> makes exactly one \<^verbatim>\<open>requests.post\<close> call, with the URL
  \<^verbatim>\<open>{base_url}/api/ai-index/orgs/{org_id}/users/{user_id}/documents/train/\<close>, the header
  \<^verbatim>\<open>Authorization: Api-Token {api_key}\<close>, one file part \<^verbatim>\<open>file\<close> carrying the file's base
  name, its bytes and its MIME type, and the form fields \<^verbatim>\<open>pathway\<close>, \<^verbatim>\<open>type\<close> (always
  \<^verbatim>\<open>file\<close>) and \<^verbatim>\<open>name\<close>. The MIME type comes from the lower-cased extension by the
  four-entry table, \<^verbatim>\<open>application/octet-stream\<close> otherwise; a warning is logged exactly
  for an extension outside the table.
\<close>

theorem upload_document_request:
  "fs file_path = Entry st \<and> r_ok st \<and> kind st = RegularFile \<longrightarrow>
     posts (snd (upload_document fs post org_id user_id mentor_id file_path api_key base_url timeout)) =
       [\<lparr> post_url = base_url @ ''/api/ai-index/orgs/'' @ org_id @ ''/users/'' @ user_id
                       @ ''/documents/train/'',
           post_headers = [(''Authorization'', ''Api-Token '' @ api_key)],
           post_files = [(''file'', name file_path, content st,
                          (if lower (suffix file_path) = ''.pdf'' then ''application/pdf''
                           else if lower (suffix file_path) = ''.txt'' then ''text/plain''
                           else if lower (suffix file_path) = ''.doc'' then ''application/msword''
                           else if lower (suffix file_path) = ''.docx''
                           then ''application/vnd.openxmlformats-officedocument.wordprocessingml.document''
                           else ''application/octet-stream''))],
           post_data = [(''pathway'', mentor_id), (''type'', ''file''), (''name'', name file_path)],
           post_timeout = timeout \<rparr>]
     \<and> ((\<exists>m. (WARNING, m) \<in> set (logs (snd (upload_document fs post org_id user_id mentor_id
                                                file_path api_key base_url timeout))))
          \<longleftrightarrow> lower (suffix file_path) \<notin> {''.pdf'', ''.txt'', ''.doc'', ''.docx''})"
proof (intro impI, elim conjE)
  assume a: "fs file_path = Entry st" "r_ok st" "kind st = RegularFile"
  let ?u = "upload_document fs post org_id user_id mentor_id file_path api_key base_url timeout"
  have t: "mime_type_of (lower (suffix file_path)) =
             (if lower (suffix file_path) = ''.pdf'' then ''application/pdf''
              else if lower (suffix file_path) = ''.txt'' then ''text/plain''
              else if lower (suffix file_path) = ''.doc'' then ''application/msword''
              else if lower (suffix file_path) = ''.docx''
              then ''application/vnd.openxmlformats-officedocument.wordprocessingml.document''
              else ''application/octet-stream'')"
    by (rule mime_type_of_table)
  have p: "posts (snd ?u) =
       [\<lparr> post_url = base_url @ ''/api/ai-index/orgs/'' @ org_id @ ''/users/'' @ user_id
                       @ ''/documents/train/'',
           post_headers = [(''Authorization'', ''Api-Token '' @ api_key)],
           post_files = [(''file'', name file_path, content st, mime_type_of (lower (suffix file_path)))],
           post_data = [(''pathway'', mentor_id), (''type'', ''file''), (''name'', name file_path)],
           post_timeout = timeout \<rparr>]"
    using a by (rule upload_document_posts)
  have w: "(\<exists>m. (WARNING, m) \<in> set (logs (snd ?u)))
          \<longleftrightarrow> mime_type_of (lower (suffix file_path)) = ''application/octet-stream''"
    using a by (rule upload_document_warning)
  from p t have p': "posts (snd ?u) =
       [\<lparr> post_url = base_url @ ''/api/ai-index/orgs/'' @ org_id @ ''/users/'' @ user_id
                       @ ''/documents/train/'',
           post_headers = [(''Authorization'', ''Api-Token '' @ api_key)],
           post_files = [(''file'', name file_path, content st,
                          (if lower (suffix file_path) = ''.pdf'' then ''application/pdf''
                           else if lower (suffix file_path) = ''.txt'' then ''text/plain''
                           else if lower (suffix file_path) = ''.doc'' then ''application/msword''
                           else if lower (suffix file_path) = ''.docx''
                           then ''application/vnd.openxmlformats-officedocument.wordprocessingml.document''
                           else ''application/octet-stream''))],
           post_data = [(''pathway'', mentor_id), (''type'', ''file''), (''name'', name file_path)],
           post_timeout = timeout \<rparr>]"
    by (simp only:)
  from w have w': "(\<exists>m. (WARNING, m) \<in> set (logs (snd ?u)))
          \<longleftrightarrow> lower (suffix file_path) \<notin> {''.pdf'', ''.txt'', ''.doc'', ''.docx''}"
    by (simp only: mime_type_unknown)
  from p' w' show "posts (snd ?u) =
       [\<lparr> post_url = base_url @ ''/api/ai-index/orgs/'' @ org_id @ ''/users/'' @ user_id
                       @ ''/documents/train/'',
           post_headers = [(''Authorization'', ''Api-Token '' @ api_key)],
           post_files = [(''file'', name file_path, content st,
                          (if lower (suffix file_path) = ''.pdf'' then ''application/pdf''
                           else if lower (suffix file_path) = ''.txt'' then ''text/plain''
                           else if lower (suffix file_path) = ''.doc'' then ''application/msword''
                           else if lower (suffix file_path) = ''.docx''
                           then ''application/vnd.openxmlformats-officedocument.wordprocessingml.document''
                           else ''application/octet-stream''))],
           post_data = [(''pathway'', mentor_id), (''type'', ''file''), (''name'', name file_path)],
           post_timeout = timeout \<rparr>]
     \<and> ((\<exists>m. (WARNING, m) \<in> set (logs (snd ?u)))
          \<longleftrightarrow> lower (suffix file_path) \<notin> {''.pdf'', ''.txt'', ''.doc'', ''.docx''})"
    by (rule conjI)
qed

text \<open>The request for \<^verbatim>\<open>notes/Report.PDF\<close>: the extension is matched in lower case.\<close>

theorem upload_document_request_witness:
  "posts (snd (upload_document
                 (\<lambda>p. if p = Path ''notes/Report.PDF''
                       then Entry \<lparr>kind = RegularFile, r_ok = True, st_size = 5,
                                   content = ''%PDF-'', decoded = Inr ''%PDF-''\<rparr>
                       else NoEntry)
                 (\<lambda>req. Inl (ConnectionError ''refused''))
                 ''syracuse'' ''jsmith'' ''25223e76-fc94-4cc2-aec1-f9fb51f0c2bf''
                 (Path ''notes/Report.PDF'') ''0123456789abcdef''
                 ''https://base.manager.ai.syr.edu'' 300)) =
     [\<lparr> post_url = ''https://base.manager.ai.syr.edu/api/ai-index/orgs/syracuse/users/jsmith/documents/train/'',
         post_headers = [(''Authorization'', ''Api-Token 0123456789abcdef'')],
         post_files = [(''file'', ''Report.PDF'', ''%PDF-'', ''application/pdf'')],
         post_data = [(''pathway'', ''25223e76-fc94-4cc2-aec1-f9fb51f0c2bf''), (''type'', ''file''),
                      (''name'', ''Report.PDF'')],
         post_timeout = 300 \<rparr>]"
proof -
  have n: "name (Path ''notes/Report.PDF'') = ''Report.PDF''"
    by code_simp
  have s: "lower (suffix (Path ''notes/Report.PDF'')) = ''.pdf''"
    by code_simp
  show ?thesis
    using upload_document_request
      [of "\<lambda>p. if p = Path ''notes/Report.PDF''
                then Entry \<lparr>kind = RegularFile, r_ok = True, st_size = 5,
                            content = ''%PDF-'', decoded = Inr ''%PDF-''\<rparr>
                else NoEntry"
          "Path ''notes/Report.PDF''"
          "\<lparr>kind = RegularFile, r_ok = True, st_size = 5,
            content = ''%PDF-'', decoded = Inr ''%PDF-''\<rparr>"
          "\<lambda>req. Inl (ConnectionError ''refused'')"
          "''syracuse''" "''jsmith''" "''25223e76-fc94-4cc2-aec1-f9fb51f0c2bf''"
          "''0123456789abcdef''" "''https://base.manager.ai.syr.edu''" 300]
    by (simp add: n s)
qed

subsection \<open>The answer to a status of 200 or 201\<close>

text \<open>
  What holds of C2. When the endpoint answers with status 200 or 201: if
  \<^verbatim>\<open>response.json()\<close> gives a dict, \<^verbatim>\<open>upload_document\<close> returns that dict; if it cannot
  decode the body (it raises the \<^verbatim>\<open>JSONDecodeError\<close> of \<^verbatim>\<open>requests\<close>), \<^verbatim>\<open>upload_document\<close>
  raises \<^verbatim>\<open>DocumentUploadError\<close> with the decoder's message; a result is returned only in
  the first case.
\<close>

lemma upload_document_success:
  "fs file_path = Entry st \<and> r_ok st \<and> kind st = RegularFile
     \<and> (status_code r = 200 \<or> status_code r = 201) \<longrightarrow>
     (\<forall>d. json r = Inr (JObject d) \<longrightarrow>
        fst (upload_document fs (\<lambda>req. Inr r) org_id user_id mentor_id file_path api_key base_url timeout)
          = Inr (JObject d))
   \<and> (\<forall>s. json r = Inl (JSONDecodeError s) \<longrightarrow>
        fst (upload_document fs (\<lambda>req. Inr r) org_id user_id mentor_id file_path api_key base_url timeout)
          = Inl (DocumentUploadError [Lit ''Request failed: '', Str s]))
   \<and> ((\<exists>v. fst (upload_document fs (\<lambda>req. Inr r) org_id user_id mentor_id file_path api_key
                  base_url timeout) = Inr v)
        \<longleftrightarrow> (\<exists>d. json r = Inr (JObject d)))"
proof (intro impI, elim conjE)
  assume a: "fs file_path = Entry st" "r_ok st" "kind st = RegularFile"
    and ok: "status_code r = 200 \<or> status_code r = 201"
  let ?u = "upload_document fs (\<lambda>req. Inr r) org_id user_id mentor_id file_path api_key base_url timeout"
  have u: "fst ?u = fst (handle_response timeout (Inr r))"
    using a by (rule upload_document_fst)
  have 1: "\<forall>d. json r = Inr (JObject d) \<longrightarrow> fst ?u = Inr (JObject d)"
    by (simp add: u handle_response_object [OF ok])
  have 2: "\<forall>s. json r = Inl (JSONDecodeError s) \<longrightarrow>
             fst ?u = Inl (DocumentUploadError [Lit ''Request failed: '', Str s])"
    by (simp add: u handle_response_undecoded [OF ok] upload_except_eq)
  have 3: "(\<exists>v. fst ?u = Inr v) \<longleftrightarrow> (\<exists>d. json r = Inr (JObject d))"
  proof (cases "json r")
    case (Inl e)
    then show ?thesis
      by (simp add: u handle_response_undecoded [OF ok] upload_except_eq)
  next
    case j: (Inr v)
    show ?thesis
    proof (cases "\<exists>d. v = JObject d")
      case True
      then obtain d where "v = JObject d" ..
      with j show ?thesis
        by (simp add: u handle_response_object [OF ok])
    next
      case False
      then have "\<forall>d. v \<noteq> JObject d" by simp
      then show ?thesis
        using j by (simp add: u handle_response_other [OF ok j])
    qed
  qed
  from 1 2 3 show "(\<forall>d. json r = Inr (JObject d) \<longrightarrow> fst ?u = Inr (JObject d))
     \<and> (\<forall>s. json r = Inl (JSONDecodeError s) \<longrightarrow>
           fst ?u = Inl (DocumentUploadError [Lit ''Request failed: '', Str s]))
     \<and> ((\<exists>v. fst ?u = Inr v) \<longleftrightarrow> (\<exists>d. json r = Inr (JObject d)))"
    by (intro conjI)
qed

text \<open>Status 201 with the body \<^verbatim>\<open>{"document_id":"abc123"}\<close> returns the parsed dict.\<close>

lemma upload_document_created:
  "fst (upload_document
          (\<lambda>p. if p = Path ''report.pdf''
                then Entry \<lparr>kind = RegularFile, r_ok = True, st_size = 5,
                            content = ''%PDF-'', decoded = Inr ''%PDF-''\<rparr>
                else NoEntry)
          (\<lambda>req. Inr \<lparr>status_code = 201, body_text = ''{\"document_id\":\"abc123\"}'',
                       json = Inr (JObject [(''document_id'', JString ''abc123'')])\<rparr>)
          ''syracuse'' ''jsmith'' ''25223e76-fc94-4cc2-aec1-f9fb51f0c2bf''
          (Path ''report.pdf'') ''0123456789abcdef'' ''https://base.manager.ai.syr.edu'' 300)
     = Inr (JObject [(''document_id'', JString ''abc123'')])"
  using upload_document_success
    [of "\<lambda>p. if p = Path ''report.pdf''
              then Entry \<lparr>kind = RegularFile, r_ok = True, st_size = 5,
                          content = ''%PDF-'', decoded = Inr ''%PDF-''\<rparr>
              else NoEntry"
        "Path ''report.pdf''"
        "\<lparr>kind = RegularFile, r_ok = True, st_size = 5,
          content = ''%PDF-'', decoded = Inr ''%PDF-''\<rparr>"
        "\<lparr>status_code = 201, body_text = ''{\"document_id\":\"abc123\"}'',
          json = Inr (JObject [(''document_id'', JString ''abc123'')])\<rparr>"
        "''syracuse''" "''jsmith''" "''25223e76-fc94-4cc2-aec1-f9fb51f0c2bf''"
        "''0123456789abcdef''" "''https://base.manager.ai.syr.edu''" 300]
  by simp

text \<open>
  C2 fails on the code for a body that is JSON but not an object. With status 200 and the
  body \<^verbatim>\<open>[1, 2]\<close>, \<^verbatim>\<open>response.json()\<close> returns a list, the script logs
  \<^verbatim>\<open>Upload successful!\<close>, and \<^verbatim>\<open>result.get\<close> raises \<^verbatim>\<open>AttributeError\<close>, which none of the
  three \<^verbatim>\<open>except\<close> clauses takes: the caller gets neither a result nor a
  \<^verbatim>\<open>DocumentUploadError\<close>.
\<close>

theorem upload_document_json_array:
  "fst (upload_document
          (\<lambda>p. if p = Path ''report.pdf''
                then Entry \<lparr>kind = RegularFile, r_ok = True, st_size = 5,
                            content = ''%PDF-'', decoded = Inr ''%PDF-''\<rparr>
                else NoEntry)
          (\<lambda>req. Inr \<lparr>status_code = 200, body_text = ''[1, 2]'',
                       json = Inr (JArray [JNumber 1, JNumber 2])\<rparr>)
          ''syracuse'' ''jsmith'' ''25223e76-fc94-4cc2-aec1-f9fb51f0c2bf''
          (Path ''report.pdf'') ''0123456789abcdef'' ''https://base.manager.ai.syr.edu'' 300)
     = Inl (AttributeError [Lit ''object has no attribute '', Quoted ''get''])
   \<and> (INFO, [Lit ''Upload successful!''])
       \<in> set (logs (snd (upload_document
          (\<lambda>p. if p = Path ''report.pdf''
                then Entry \<lparr>kind = RegularFile, r_ok = True, st_size = 5,
                            content = ''%PDF-'', decoded = Inr ''%PDF-''\<rparr>
                else NoEntry)
          (\<lambda>req. Inr \<lparr>status_code = 200, body_text = ''[1, 2]'',
                       json = Inr (JArray [JNumber 1, JNumber 2])\<rparr>)
          ''syracuse'' ''jsmith'' ''25223e76-fc94-4cc2-aec1-f9fb51f0c2bf''
          (Path ''report.pdf'') ''0123456789abcdef'' ''https://base.manager.ai.syr.edu'' 300)))"
proof -
  let ?st = "\<lparr>kind = RegularFile, r_ok = True, st_size = 5,
              content = ''%PDF-'', decoded = Inr ''%PDF-''\<rparr>"
  let ?fs = "\<lambda>p. if p = Path ''report.pdf'' then Entry ?st else NoEntry"
  let ?r = "\<lparr>status_code = 200, body_text = ''[1, 2]'',
             json = Inr (JArray [JNumber 1, JNumber 2])\<rparr>"
  have h: "handle_response 300 (Inr ?r) =
             (Inl (AttributeError [Lit ''object has no attribute '', Quoted ''get'']),
              [Log INFO [Lit ''Upload successful!'']])"
  proof (rule handle_response_other)
    show "status_code ?r = 200 \<or> status_code ?r = 201" by simp
    show "json ?r = Inr (JArray [JNumber 1, JNumber 2])" by simp
    show "\<forall>d. JArray [JNumber 1, JNumber 2] \<noteq> JObject d" by simp
  qed
  have op: "open_read ?fs (Path ''report.pdf'') = (Inr (content ?st), [])"
    by (rule open_read_regular) simp_all
  show ?thesis
    by (simp add: upload_document_eq op h Let_def logs_simps)
qed

subsection \<open>The failures of the upload\<close>





subsection \<open>The steps of main\<close>

lemma validate_configuration_eq:
  "validate_configuration org_id user_id mentor_id =
     (if org_id = []
      then (Inl (ConfigurationError [Lit ''Organization ID must be a non-empty string'']), [])
      else if user_id = []
      then (Inl (ConfigurationError [Lit ''User ID must be a non-empty string'']), [])
      else if mentor_id = []
      then (Inl (ConfigurationError [Lit ''Mentor ID must be a non-empty string'']), [])
      else (Inr (),
            (if length mentor_id \<noteq> 36 \<or> count_list mentor_id (CHR ''-'') \<noteq> 4
             then [Log WARNING
                     [Lit ''Mentor ID format looks unusual: '', Str mentor_id,
                      Lit (CHR 0x0A # ''Expected UUID format (e.g., 25223e76-fc94-4cc2-aec1-f9fb51f0c2bf)'')]]
             else []) @
            [Log INFO [Lit ''Configuration validated - Org: '', Str org_id, Lit '', User: '',
                       Str user_id]]))"
  by (simp add: validate_configuration_def run_simps)

lemma validate_configuration_posts:
  "posts (snd (validate_configuration org_id user_id mentor_id)) = []"
  by (simp add: validate_configuration_eq posts_simps)

lemma load_api_key_returned:
  assumes "fst (load_api_key fs credential_file) = Inr k"
  shows "load_api_key fs credential_file = (Inr k, [Log INFO [Lit ''API key loaded successfully'']])"
proof (cases "fs (Path credential_file)")
  case NoEntry
  with assms show ?thesis by (simp add: load_api_key_eq)
next
  case (Refused m)
  with assms show ?thesis by (simp add: load_api_key_eq)
next
  case (Entry st)
  show ?thesis
  proof (cases "decoded st")
    case (Inl e)
    with Entry assms show ?thesis by (simp add: load_api_key_eq split: if_splits)
  next
    case (Inr t)
    with Entry assms show ?thesis by (simp add: load_api_key_eq split: if_splits)
  qed
qed

lemma load_api_key_posts:
  "posts (snd (load_api_key fs credential_file)) = []"
  by (simp add: load_api_key_eq posts_simps split: lookup.splits sum.splits)

lemma validate_file_path_eq:
  "validate_file_path fs file_path =
     (case fs (Path file_path) of
        Refused m \<Rightarrow> (Inl (IOError m), [])
      | NoEntry \<Rightarrow> (Inl (ConfigurationError [Lit ''File not found: '', Str file_path]), [])
      | Entry st \<Rightarrow>
          if kind st \<noteq> RegularFile
          then (Inl (ConfigurationError [Lit ''Path is not a file: '', Str file_path]), [])
          else if \<not> r_ok st
          then (Inl (ConfigurationError [Lit ''File is not readable: '', Str file_path]), [])
          else if 104857600 < st_size st
          then (Inl (ConfigurationError
                       [Lit ''File too large: '', Fixed2 (st_size st) 1048576, Lit ''MB (max: 100MB)'']), [])
          else if st_size st = 0
          then (Inl (ConfigurationError [Lit ''File is empty: '', Str file_path]), [])
          else (Inr (Path file_path),
                [Log INFO [Lit ''File validated: '', Str file_path, Lit '' ('',
                           Fixed2 (st_size st) 1024, Lit ''KB)'']]))"
  by (simp add: validate_file_path_def run_simps Let_def split: lookup.split)

lemma validate_file_path_posts:
  "posts (snd (validate_file_path fs file_path)) = []"
  by (simp add: validate_file_path_eq posts_simps split: lookup.split)

lemma validate_file_path_returned:
  "fst (validate_file_path fs file_path) = Inr p \<Longrightarrow>
   p = Path file_path \<and>
   (\<exists>st. fs (Path file_path) = Entry st \<and> kind st = RegularFile \<and> r_ok st
          \<and> 0 < st_size st \<and> st_size st \<le> 104857600)"
  by (cases "fs (Path file_path)") (auto simp add: validate_file_path_eq split: if_splits)

lemma parse_arguments_eq:
  "parse_arguments ns = (if args_timeout ns < 1 then (Inl (SystemExit 2), []) else (Inr ns, []))"
  by (simp add: parse_arguments_def run_simps)

text \<open>The \<^verbatim>\<open>try\<close> block of \<^verbatim>\<open>main\<close>, step by step: the first step that raises ends it.\<close>

lemma main_try_eq:
  "main_try fs post a =
     (case validate_configuration (args_org_id a) (args_user_id a) (args_mentor_id a) of
        (Inl e, ev1) \<Rightarrow> (Inl e, ev1)
      | (Inr u, ev1) \<Rightarrow>
     (case load_api_key fs (args_credentials a) of
        (Inl e, ev2) \<Rightarrow> (Inl e, ev1 @ ev2)
      | (Inr k, ev2) \<Rightarrow>
     (case validate_file_path fs (args_file a) of
        (Inl e, ev3) \<Rightarrow> (Inl e, ev1 @ ev2 @ ev3)
      | (Inr p, ev3) \<Rightarrow>
     (case upload_document fs post (args_org_id a) (args_user_id a) (args_mentor_id a)
             p k (args_base_url a) (args_timeout a) of
        (Inl e, ev4) \<Rightarrow> (Inl e, ev1 @ ev2 @ ev3 @ ev4)
      | (Inr r, ev4) \<Rightarrow>
          (Inr 0, ev1 @ ev2 @ ev3 @ ev4 @
                  [Log INFO [Lit (replicate 60 (CHR ''=''))],
                   Log INFO [Lit ''Script completed successfully!''],
                   Log INFO [Lit (replicate 60 (CHR ''=''))]])))))"
  by (simp add: main_try_def bind_def logger_def return_def split: prod.split sum.split)

lemma main_except_eq:
  "main_except e =
     (case e of
        ConfigurationError m \<Rightarrow>
          (Inr 1, [Log ERROR (Lit ''Configuration Error: '' # m),
                   Log ERROR [Lit ''Please check your settings and try again.'']])
      | DocumentUploadError m \<Rightarrow> (Inr 1, [Log ERROR (Lit ''Upload Error: '' # m)])
      | KeyboardInterrupt \<Rightarrow> (Inr 130, [Log WARNING [Lit (CHR 0x0A # ''Script interrupted by user'')]])
      | SystemExit n \<Rightarrow> (Inl (SystemExit n), [])
      | _ \<Rightarrow> (Inr 1, [Log ERROR (Lit ''Unexpected error: '' # str_exn e)]))"
  by (cases e) (simp_all add: main_except_def run_simps)

text \<open>\<^verbatim>\<open>main\<close>: the arguments, the banner, then the \<^verbatim>\<open>try\<close> block under its handlers.\<close>

lemma main_eq:
  "main fs post ns =
     (if args_timeout ns < 1 then (Inl (SystemExit 2), [])
      else (fst (catch (main_try fs post ns) main_except),
            (if args_verbose ns then [Log DEBUG [Lit ''Verbose logging enabled'']] else []) @
            [Log INFO [Lit (replicate 60 (CHR ''=''))],
             Log INFO [Lit ''Document Upload Script Started''],
             Log INFO [Lit (replicate 60 (CHR ''=''))],
             Log INFO [Lit ''Organization: '', Str (args_org_id ns)],
             Log INFO [Lit ''User: '', Str (args_user_id ns)],
             Log INFO [Lit ''Mentor ID: '', Str (args_mentor_id ns)],
             Log INFO [Lit ''File: '', Str (args_file ns)],
             Log INFO [Lit ''Base URL: '', Str (args_base_url ns)],
             Log INFO [Lit ''Timeout: '', Num (args_timeout ns), Lit ''s'']] @
            snd (catch (main_try fs post ns) main_except)))"
  by (simp add: main_def parse_arguments_eq run_simps)

lemma catch_eq:
  "catch m h = (case fst m of Inl e \<Rightarrow> (fst (h e), snd m @ snd (h e)) | Inr x \<Rightarrow> (Inr x, snd m))"
  by (cases m) (simp add: catch_def split: sum.split prod.split)


lemma main_except_posts: "posts (snd (main_except e)) = []"
  by (cases e) (simp_all add: main_except_eq posts_simps)

lemma main_posts:
  "posts (snd (main fs post ns)) =
     (if args_timeout ns < 1 then [] else posts (snd (main_try fs post ns)))"
  by (simp add: main_eq catch_eq posts_simps main_except_posts split: sum.split)

subsection \<open>The timeout argument\<close>




subsection \<open>Validating the configuration\<close>

lemma main_try_posts:
  "posts (snd (main_try fs post a)) =
     (case fst (validate_configuration (args_org_id a) (args_user_id a) (args_mentor_id a)) of
        Inl e \<Rightarrow> []
      | Inr u \<Rightarrow>
     (case fst (load_api_key fs (args_credentials a)) of
        Inl e \<Rightarrow> []
      | Inr k \<Rightarrow>
     (case fst (validate_file_path fs (args_file a)) of
        Inl e \<Rightarrow> []
      | Inr p \<Rightarrow>
          posts (snd (upload_document fs post (args_org_id a) (args_user_id a) (args_mentor_id a)
                        p k (args_base_url a) (args_timeout a))))))"
proof -
  obtain r1 ev1 where 1:
    "validate_configuration (args_org_id a) (args_user_id a) (args_mentor_id a) = (r1, ev1)"
    by (cases "validate_configuration (args_org_id a) (args_user_id a) (args_mentor_id a)")
  obtain r2 ev2 where 2: "load_api_key fs (args_credentials a) = (r2, ev2)"
    by (cases "load_api_key fs (args_credentials a)")
  obtain r3 ev3 where 3: "validate_file_path fs (args_file a) = (r3, ev3)"
    by (cases "validate_file_path fs (args_file a)")
  have p1: "posts ev1 = []"
    using validate_configuration_posts [of "args_org_id a" "args_user_id a" "args_mentor_id a"] 1
    by simp
  have p2: "posts ev2 = []"
    using load_api_key_posts [of fs "args_credentials a"] 2 by simp
  have p3: "posts ev3 = []"
    using validate_file_path_posts [of fs "args_file a"] 3 by simp
  show ?thesis
    by (simp add: main_try_eq 1 2 3 p1 p2 p3 posts_simps split: sum.split prod.split)
qed

lemma main_try_fst:
  "fst (main_try fs post a) =
     (case fst (validate_configuration (args_org_id a) (args_user_id a) (args_mentor_id a)) of
        Inl e \<Rightarrow> Inl e
      | Inr u \<Rightarrow>
     (case fst (load_api_key fs (args_credentials a)) of
        Inl e \<Rightarrow> Inl e
      | Inr k \<Rightarrow>
     (case fst (validate_file_path fs (args_file a)) of
        Inl e \<Rightarrow> Inl e
      | Inr p \<Rightarrow>
     (case fst (upload_document fs post (args_org_id a) (args_user_id a) (args_mentor_id a)
                  p k (args_base_url a) (args_timeout a)) of
        Inl e \<Rightarrow> Inl e
      | Inr r \<Rightarrow> Inr 0))))"
  by (simp add: main_try_eq split: sum.split prod.split)

text \<open>
  C8. \<^verbatim>\<open>validate_configuration\<close> raises \<^verbatim>\<open>ConfigurationError\<close> exactly when the org id, the
  user id or the pathway id is empty, and returns for all others. For three non-empty ids
  it logs a warning exactly when the pathway id is not 36 characters long or does not hold
  exactly 4 hyphens. With or without the warning the run goes on: once the key is loaded and
  the file a readable regular one of 1 to 104,857,600 bytes, the \<^verbatim>\<open>try\<close> block of \<^verbatim>\<open>main\<close>
  makes the one upload request, for that pathway id.
\<close>

theorem validate_configuration_spec:
  "((\<exists>m. fst (validate_configuration org_id user_id mentor_id) = Inl (ConfigurationError m))
      \<longleftrightarrow> (org_id = [] \<or> user_id = [] \<or> mentor_id = []))
   \<and> (fst (validate_configuration org_id user_id mentor_id) = Inr ()
      \<longleftrightarrow> (org_id \<noteq> [] \<and> user_id \<noteq> [] \<and> mentor_id \<noteq> []))
   \<and> (org_id \<noteq> [] \<and> user_id \<noteq> [] \<and> mentor_id \<noteq> [] \<longrightarrow>
        ((\<exists>m. (WARNING, m) \<in> set (logs (snd (validate_configuration org_id user_id mentor_id))))
           \<longleftrightarrow> (length mentor_id \<noteq> 36 \<or> count_list mentor_id (CHR ''-'') \<noteq> 4))
      \<and> (fst (load_api_key fs credentials) = Inr k
           \<and> fs (Path file) = Entry st \<and> kind st = RegularFile \<and> r_ok st
           \<and> 0 < st_size st \<and> st_size st \<le> 104857600 \<longrightarrow>
          posts (snd (main_try fs post
                   \<lparr>args_org_id = org_id, args_user_id = user_id, args_mentor_id = mentor_id,
                     args_file = file, args_credentials = credentials, args_base_url = base_url,
                     args_timeout = timeout, args_verbose = verbose\<rparr>)) =
            [\<lparr> post_url = base_url @ ''/api/ai-index/orgs/'' @ org_id @ ''/users/'' @ user_id
                            @ ''/documents/train/'',
                post_headers = [(''Authorization'', ''Api-Token '' @ k)],
                post_files = [(''file'', name (Path file), content st,
                               mime_type_of (lower (suffix (Path file))))],
                post_data = [(''pathway'', mentor_id), (''type'', ''file''),
                             (''name'', name (Path file))],
                post_timeout = timeout \<rparr>]))"
proof -
  let ?vc = "validate_configuration org_id user_id mentor_id"
  have 1: "(\<exists>m. fst ?vc = Inl (ConfigurationError m)) \<longleftrightarrow> (org_id = [] \<or> user_id = [] \<or> mentor_id = [])"
    by (simp add: validate_configuration_eq)
  have 2: "fst ?vc = Inr () \<longleftrightarrow> (org_id \<noteq> [] \<and> user_id \<noteq> [] \<and> mentor_id \<noteq> [])"
    by (simp add: validate_configuration_eq)
  have 3: "org_id \<noteq> [] \<and> user_id \<noteq> [] \<and> mentor_id \<noteq> [] \<longrightarrow>
        ((\<exists>m. (WARNING, m) \<in> set (logs (snd ?vc)))
           \<longleftrightarrow> (length mentor_id \<noteq> 36 \<or> count_list mentor_id (CHR ''-'') \<noteq> 4))"
    by (simp add: validate_configuration_eq logs_simps)
  have 4: "org_id \<noteq> [] \<and> user_id \<noteq> [] \<and> mentor_id \<noteq> [] \<longrightarrow>
        (fst (load_api_key fs credentials) = Inr k
           \<and> fs (Path file) = Entry st \<and> kind st = RegularFile \<and> r_ok st
           \<and> 0 < st_size st \<and> st_size st \<le> 104857600 \<longrightarrow>
          posts (snd (main_try fs post
                   \<lparr>args_org_id = org_id, args_user_id = user_id, args_mentor_id = mentor_id,
                     args_file = file, args_credentials = credentials, args_base_url = base_url,
                     args_timeout = timeout, args_verbose = verbose\<rparr>)) =
            [\<lparr> post_url = base_url @ ''/api/ai-index/orgs/'' @ org_id @ ''/users/'' @ user_id
                            @ ''/documents/train/'',
                post_headers = [(''Authorization'', ''Api-Token '' @ k)],
                post_files = [(''file'', name (Path file), content st,
                               mime_type_of (lower (suffix (Path file))))],
                post_data = [(''pathway'', mentor_id), (''type'', ''file''),
                             (''name'', name (Path file))],
                post_timeout = timeout \<rparr>])"
  proof (intro impI, elim conjE)
    assume ids: "org_id \<noteq> []" "user_id \<noteq> []" "mentor_id \<noteq> []"
      and key: "fst (load_api_key fs credentials) = Inr k"
      and fl: "fs (Path file) = Entry st" "kind st = RegularFile" "r_ok st"
        "0 < st_size st" "st_size st \<le> 104857600"
    have v: "fst (validate_file_path fs file) = Inr (Path file)"
      using fl by (simp add: validate_file_path_eq)
    have c: "fst ?vc = Inr ()"
      using ids by (simp add: validate_configuration_eq)
    have u: "posts (snd (upload_document fs post org_id user_id mentor_id (Path file) k base_url timeout)) =
            [\<lparr> post_url = base_url @ ''/api/ai-index/orgs/'' @ org_id @ ''/users/'' @ user_id
                            @ ''/documents/train/'',
                post_headers = [(''Authorization'', ''Api-Token '' @ k)],
                post_files = [(''file'', name (Path file), content st,
                               mime_type_of (lower (suffix (Path file))))],
                post_data = [(''pathway'', mentor_id), (''type'', ''file''),
                             (''name'', name (Path file))],
                post_timeout = timeout \<rparr>]"
      using fl(1) fl(3) fl(2) by (rule upload_document_posts)
    show "posts (snd (main_try fs post
                   \<lparr>args_org_id = org_id, args_user_id = user_id, args_mentor_id = mentor_id,
                     args_file = file, args_credentials = credentials, args_base_url = base_url,
                     args_timeout = timeout, args_verbose = verbose\<rparr>)) =
            [\<lparr> post_url = base_url @ ''/api/ai-index/orgs/'' @ org_id @ ''/users/'' @ user_id
                            @ ''/documents/train/'',
                post_headers = [(''Authorization'', ''Api-Token '' @ k)],
                post_files = [(''file'', name (Path file), content st,
                               mime_type_of (lower (suffix (Path file))))],
                post_data = [(''pathway'', mentor_id), (''type'', ''file''),
                             (''name'', name (Path file))],
                post_timeout = timeout \<rparr>]"
      by (simp add: main_try_posts c key v u)
  qed
  from 1 2 3 4 show ?thesis by blast
qed

text \<open>
  The pathway id \<^verbatim>\<open>abc-123\<close> has neither the length nor the hyphens of a UUID: the warning
  is logged, and the request is made with it.
\<close>

theorem validate_configuration_spec_witness:
  "(\<exists>m. (WARNING, m) \<in> set (logs (snd (validate_configuration ''syracuse'' ''jsmith'' ''abc-123''))))
   \<and> posts (snd (main_try
        (\<lambda>p. if p = Path ''api_credentials.txt''
              then Entry \<lparr>kind = RegularFile, r_ok = True, st_size = 17,
                          content = ''0123456789abcdef'' @ [CHR 0x0A],
                          decoded = Inr (''0123456789abcdef'' @ [CHR 0x0A])\<rparr>
              else if p = Path ''report.pdf''
              then Entry \<lparr>kind = RegularFile, r_ok = True, st_size = 5,
                          content = ''%PDF-'', decoded = Inr ''%PDF-''\<rparr>
              else NoEntry)
        (\<lambda>req. Inl (ConnectionError ''refused''))
        \<lparr>args_org_id = ''syracuse'', args_user_id = ''jsmith'', args_mentor_id = ''abc-123'',
          args_file = ''report.pdf'', args_credentials = ''api_credentials.txt'',
          args_base_url = ''https://base.manager.ai.syr.edu'', args_timeout = 300,
          args_verbose = False\<rparr>)) =
     [\<lparr> post_url = ''https://base.manager.ai.syr.edu/api/ai-index/orgs/syracuse/users/jsmith/documents/train/'',
         post_headers = [(''Authorization'', ''Api-Token 0123456789abcdef'')],
         post_files = [(''file'', ''report.pdf'', ''%PDF-'', ''application/pdf'')],
         post_data = [(''pathway'', ''abc-123''), (''type'', ''file''), (''name'', ''report.pdf'')],
         post_timeout = 300 \<rparr>]"
proof -
  let ?cred = "\<lparr>kind = RegularFile, r_ok = True, st_size = 17,
                 content = ''0123456789abcdef'' @ [CHR 0x0A],
                 decoded = Inr (''0123456789abcdef'' @ [CHR 0x0A])\<rparr>"
  let ?doc = "\<lparr>kind = RegularFile, r_ok = True, st_size = 5,
                content = ''%PDF-'', decoded = Inr ''%PDF-''\<rparr>"
  let ?fs = "\<lambda>p. if p = Path ''api_credentials.txt'' then Entry ?cred
                 else if p = Path ''report.pdf'' then Entry ?doc else NoEntry"
  have d: "Path ''report.pdf'' \<noteq> Path ''api_credentials.txt''"
    by (simp add: Path_def)
  have s: "strip (readline (''0123456789abcdef'' @ [CHR 0x0A])) = ''0123456789abcdef''"
    by code_simp
  have k: "fst (load_api_key ?fs ''api_credentials.txt'') = Inr ''0123456789abcdef''"
    using s by (simp add: load_api_key_eq)
  have f: "?fs (Path ''report.pdf'') = Entry ?doc"
    using d by simp
  have n: "name (Path ''report.pdf'') = ''report.pdf''"
    by code_simp
  have m: "mime_type_of (lower (suffix (Path ''report.pdf''))) = ''application/pdf''"
    by code_simp
  show ?thesis
    using validate_configuration_spec
      [of "''syracuse''" "''jsmith''" "''abc-123''" ?fs "''api_credentials.txt''"
          "''0123456789abcdef''" "''report.pdf''" ?doc
          "\<lambda>req. Inl (ConnectionError ''refused'')"
          "''https://base.manager.ai.syr.edu''" 300 False]
    by (simp add: k f n m)
qed

subsection \<open>The exit code\<close>

lemma main_fst:
  "fst (main fs post ns) =
     (if args_timeout ns < 1 then Inl (SystemExit 2)
      else case fst (main_try fs post ns) of
             Inr c \<Rightarrow> Inr c
           | Inl e \<Rightarrow> fst (main_except e))"
  by (simp add: main_eq catch_eq split: sum.split)


lemma main_except_fst:
  "fst (main_except e) =
     (case e of
        KeyboardInterrupt \<Rightarrow> Inr 130
      | SystemExit n \<Rightarrow> Inl (SystemExit n)
      | _ \<Rightarrow> Inr 1)"
  by (cases e) (simp_all add: main_except_eq)




subsection \<open>Nothing is sent before the validations\<close>

text \<open>A trace with one request in it is split around that request in one way only.\<close>

lemma posts_split_unique:
  "posts xs = [] \<Longrightarrow> posts ys = [] \<Longrightarrow> xs @ HttpPost r # ys = pre @ HttpPost q # rest \<Longrightarrow>
   pre = xs \<and> q = r \<and> rest = ys"
proof (induction xs arbitrary: pre)
  case Nil
  note prems = Nil.prems
  show ?case
  proof (cases pre)
    case Nil
    with prems show ?thesis by simp
  next
    case (Cons p pre')
    with prems have "ys = pre' @ HttpPost q # rest" by simp
    with prems(2) show ?thesis by (simp add: posts_simps)
  qed
next
  case (Cons x xs)
  note prems = Cons.prems and IH = Cons.IH
  from prems(1) obtain l m where x: "x = Log l m"
    by (cases x) (simp_all add: posts_simps)
  from prems(1) x have pxs: "posts xs = []" by (simp add: posts_simps)
  show ?case
  proof (cases pre)
    case Nil
    with prems x show ?thesis by simp
  next
    case (Cons p pre')
    with prems have px: "p = x" and eq: "xs @ HttpPost r # ys = pre' @ HttpPost q # rest"
      by simp_all
    from IH [OF pxs prems(2) eq] have "pre' = xs \<and> q = r \<and> rest = ys" .
    with Cons px show ?thesis by simp
  qed
qed

lemma upload_document_trace:
  assumes "fs p = Entry st" and "r_ok st" and "kind st = RegularFile"
  shows "\<exists>I r0 H. snd (upload_document fs post org_id user_id mentor_id p k base_url timeout)
                     = I @ HttpPost r0 # H \<and> posts I = [] \<and> posts H = []"
proof -
  let ?mt = "mime_type_of (lower (suffix p))"
  let ?I = "(if ?mt = ''application/octet-stream''
             then [Log WARNING [Lit ''Unknown file type: '', Str (lower (suffix p)),
                                Lit '', using generic MIME type'']]
             else []) @
            [Log INFO [Lit ''Uploading document: '', Str (name p)],
             Log INFO [Lit ''Target URL: '',
                       Str (base_url @ ''/api/ai-index/orgs/'' @ org_id @ ''/users/'' @ user_id
                            @ ''/documents/train/'')],
             Log INFO [Lit ''Document type: '', Str ''file'', Lit '', MIME type: '', Str ?mt]]"
  let ?req = "\<lparr> post_url = base_url @ ''/api/ai-index/orgs/'' @ org_id @ ''/users/'' @ user_id
                              @ ''/documents/train/'',
                 post_headers = [(''Authorization'', ''Api-Token '' @ k)],
                 post_files = [(''file'', name p, content st, ?mt)],
                 post_data = [(''pathway'', mentor_id), (''type'', ''file''), (''name'', name p)],
                 post_timeout = timeout \<rparr>"
  have "snd (upload_document fs post org_id user_id mentor_id p k base_url timeout)
          = ?I @ HttpPost ?req # snd (handle_response timeout (post ?req))"
    by (simp add: upload_document_eq open_read_regular [of fs p st, OF assms] Let_def)
  moreover have "posts ?I = []"
    by (simp add: posts_simps)
  moreover have "posts (snd (handle_response timeout (post ?req))) = []"
    by (simp add: handle_response_events)
  ultimately show ?thesis by blast
qed

text \<open>
  The trace of a run whose validations have all returned: the one request stands after the
  three lines that report them.
\<close>

lemma main_trace:
  assumes t: "1 \<le> args_timeout ns"
    and c: "fst (validate_configuration (args_org_id ns) (args_user_id ns) (args_mentor_id ns)) = Inr ()"
    and k: "fst (load_api_key fs (args_credentials ns)) = Inr key"
    and f: "fs (Path (args_file ns)) = Entry st" "kind st = RegularFile" "r_ok st"
      "0 < st_size st" "st_size st \<le> 104857600"
  shows "\<exists>X r0 Y. snd (main fs post ns) = X @ HttpPost r0 # Y \<and> posts X = [] \<and> posts Y = []
           \<and> Log INFO [Lit ''Configuration validated - Org: '', Str (args_org_id ns),
                        Lit '', User: '', Str (args_user_id ns)] \<in> set X
           \<and> Log INFO [Lit ''API key loaded successfully''] \<in> set X
           \<and> Log INFO [Lit ''File validated: '', Str (args_file ns), Lit '' ('',
                        Fixed2 (st_size st) 1024, Lit ''KB)''] \<in> set X"
proof -
  let ?cfg = "Log INFO [Lit ''Configuration validated - Org: '', Str (args_org_id ns),
                        Lit '', User: '', Str (args_user_id ns)]"
  let ?key = "Log INFO [Lit ''API key loaded successfully'']"
  let ?val = "Log INFO [Lit ''File validated: '', Str (args_file ns), Lit '' ('',
                        Fixed2 (st_size st) 1024, Lit ''KB)'']"
  let ?done = "[Log INFO [Lit (replicate 60 (CHR ''=''))],
                Log INFO [Lit ''Script completed successfully!''],
                Log INFO [Lit (replicate 60 (CHR ''=''))]]"
  define B where "B =
     (if args_verbose ns then [Log DEBUG [Lit ''Verbose logging enabled'']] else []) @
     [Log INFO [Lit (replicate 60 (CHR ''=''))],
      Log INFO [Lit ''Document Upload Script Started''],
      Log INFO [Lit (replicate 60 (CHR ''=''))],
      Log INFO [Lit ''Organization: '', Str (args_org_id ns)],
      Log INFO [Lit ''User: '', Str (args_user_id ns)],
      Log INFO [Lit ''Mentor ID: '', Str (args_mentor_id ns)],
      Log INFO [Lit ''File: '', Str (args_file ns)],
      Log INFO [Lit ''Base URL: '', Str (args_base_url ns)],
      Log INFO [Lit ''Timeout: '', Num (args_timeout ns), Lit ''s'']]"
  have pB: "posts B = []"
    by (simp add: B_def posts_simps)
  have m: "snd (main fs post ns) = B @ snd (catch (main_try fs post ns) main_except)"
    using t by (simp add: main_eq B_def)
  obtain ev1 where 1:
    "validate_configuration (args_org_id ns) (args_user_id ns) (args_mentor_id ns) = (Inr (), ev1)"
    using c by (cases "validate_configuration (args_org_id ns) (args_user_id ns) (args_mentor_id ns)") simp
  have p1: "posts ev1 = []"
    using validate_configuration_posts [of "args_org_id ns" "args_user_id ns" "args_mentor_id ns"] 1
    by simp
  have l1: "?cfg \<in> set ev1"
    using 1 by (simp add: validate_configuration_eq split: if_splits) auto
  have 2: "load_api_key fs (args_credentials ns) = (Inr key, [?key])"
    using k by (rule load_api_key_returned)
  have 3: "validate_file_path fs (args_file ns) = (Inr (Path (args_file ns)), [?val])"
    using f by (simp add: validate_file_path_eq)
  obtain I r0 H where 4:
    "snd (upload_document fs post (args_org_id ns) (args_user_id ns) (args_mentor_id ns)
            (Path (args_file ns)) key (args_base_url ns) (args_timeout ns)) = I @ HttpPost r0 # H"
    and pI: "posts I = []" and pH: "posts H = []"
    using upload_document_trace [of fs "Path (args_file ns)" st, OF f(1) f(3) f(2)] by blast
  obtain r ev4 where u:
    "upload_document fs post (args_org_id ns) (args_user_id ns) (args_mentor_id ns)
            (Path (args_file ns)) key (args_base_url ns) (args_timeout ns) = (r, ev4)"
    by (cases "upload_document fs post (args_org_id ns) (args_user_id ns) (args_mentor_id ns)
            (Path (args_file ns)) key (args_base_url ns) (args_timeout ns)")
  with 4 have ev4: "ev4 = I @ HttpPost r0 # H" by simp
  let ?X = "B @ ev1 @ [?key] @ [?val] @ I"
  have pX: "posts ?X = []"
    by (simp add: posts_simps pB p1 pI)
  have lX: "?cfg \<in> set ?X \<and> ?key \<in> set ?X \<and> ?val \<in> set ?X"
    using l1 by simp
  show ?thesis
  proof (cases r)
    case (Inr v)
    have "main_try fs post ns = (Inr 0, ev1 @ [?key] @ [?val] @ ev4 @ ?done)"
      by (simp add: main_try_eq 1 2 3 u Inr)
    then have "snd (main fs post ns) = ?X @ HttpPost r0 # (H @ ?done)"
      by (simp add: m catch_eq ev4)
    moreover have "posts (H @ ?done) = []"
      by (simp add: posts_simps pH)
    ultimately show ?thesis using pX lX by blast
  next
    case (Inl e)
    have "main_try fs post ns = (Inl e, ev1 @ [?key] @ [?val] @ ev4)"
      by (simp add: main_try_eq 1 2 3 u Inl)
    then have "snd (main fs post ns) = ?X @ HttpPost r0 # (H @ snd (main_except e))"
      by (simp add: m catch_eq ev4)
    moreover have "posts (H @ snd (main_except e)) = []"
      by (simp add: posts_simps pH main_except_posts)
    ultimately show ?thesis using pX lX by blast
  qed
qed

lemma validate_file_path_too_large:
  "fs (Path file_path) = Entry st \<Longrightarrow> 104857600 < st_size st \<Longrightarrow>
   \<exists>m. validate_file_path fs file_path = (Inl (ConfigurationError m), [])"
  by (simp add: validate_file_path_eq)

lemma validate_configuration_raises:
  "fst (validate_configuration org_id user_id mentor_id) = Inl e \<Longrightarrow> \<exists>m. e = ConfigurationError m"
  by (auto simp add: validate_configuration_eq split: if_splits)

text \<open>
  C7 (as amended). A request is made only in a run whose arguments were accepted and in
  which \<^verbatim>\<open>validate_configuration\<close>, \<^verbatim>\<open>load_api_key\<close> and \<^verbatim>\<open>validate_file_path\<close> have all
  returned; in the trace of the run the request stands after the lines that report the three
  validations, and it is the only one. For a file larger than 104,857,600 bytes no request
  is made in any run; and when the arguments are accepted and loading the key raises nothing
  but \<^verbatim>\<open>ConfigurationError\<close>, the \<^verbatim>\<open>try\<close> block of \<^verbatim>\<open>main\<close> ends in a \<^verbatim>\<open>ConfigurationError\<close> and
  \<^verbatim>\<open>main\<close> returns 1.
\<close>

theorem main_no_early_post:
  "(posts (snd (main fs post ns)) \<noteq> [] \<longrightarrow>
      1 \<le> args_timeout ns
    \<and> fst (validate_configuration (args_org_id ns) (args_user_id ns) (args_mentor_id ns)) = Inr ()
    \<and> (\<exists>k. fst (load_api_key fs (args_credentials ns)) = Inr k)
    \<and> fst (validate_file_path fs (args_file ns)) = Inr (Path (args_file ns)))
   \<and> (\<forall>pre req rest. snd (main fs post ns) = pre @ HttpPost req # rest \<longrightarrow>
        posts pre = [] \<and> posts rest = []
      \<and> Log INFO [Lit ''Configuration validated - Org: '', Str (args_org_id ns),
                   Lit '', User: '', Str (args_user_id ns)] \<in> set pre
      \<and> Log INFO [Lit ''API key loaded successfully''] \<in> set pre
      \<and> (\<exists>st. fs (Path (args_file ns)) = Entry st
             \<and> Log INFO [Lit ''File validated: '', Str (args_file ns), Lit '' ('',
                          Fixed2 (st_size st) 1024, Lit ''KB)''] \<in> set pre))
   \<and> (\<forall>st. fs (Path (args_file ns)) = Entry st \<and> 104857600 < st_size st \<longrightarrow>
        posts (snd (main fs post ns)) = []
      \<and> (1 \<le> args_timeout ns
           \<and> (\<forall>e. fst (load_api_key fs (args_credentials ns)) = Inl e \<longrightarrow>
                  (\<exists>m. e = ConfigurationError m)) \<longrightarrow>
         (\<exists>m. fst (main_try fs post ns) = Inl (ConfigurationError m))
         \<and> fst (main fs post ns) = Inr 1))"
proof -
  let ?vc = "validate_configuration (args_org_id ns) (args_user_id ns) (args_mentor_id ns)"
  have 1: "posts (snd (main fs post ns)) \<noteq> [] \<longrightarrow>
      1 \<le> args_timeout ns \<and> fst ?vc = Inr ()
    \<and> (\<exists>k. fst (load_api_key fs (args_credentials ns)) = Inr k)
    \<and> fst (validate_file_path fs (args_file ns)) = Inr (Path (args_file ns))"
  proof
    assume p: "posts (snd (main fs post ns)) \<noteq> []"
    then have t: "1 \<le> args_timeout ns"
      by (simp add: main_posts split: if_splits)
    with p have q: "posts (snd (main_try fs post ns)) \<noteq> []"
      by (simp add: main_posts)
    then obtain u k p' where s: "fst ?vc = Inr u"
      "fst (load_api_key fs (args_credentials ns)) = Inr k"
      "fst (validate_file_path fs (args_file ns)) = Inr p'"
      by (auto simp add: main_try_posts split: sum.splits)
    from s(3) have "p' = Path (args_file ns)"
      using validate_file_path_returned [of fs "args_file ns" p'] by simp
    with t s show "1 \<le> args_timeout ns \<and> fst ?vc = Inr ()
      \<and> (\<exists>k. fst (load_api_key fs (args_credentials ns)) = Inr k)
      \<and> fst (validate_file_path fs (args_file ns)) = Inr (Path (args_file ns))"
      by auto
  qed
  have 2: "\<forall>pre req rest. snd (main fs post ns) = pre @ HttpPost req # rest \<longrightarrow>
        posts pre = [] \<and> posts rest = []
      \<and> Log INFO [Lit ''Configuration validated - Org: '', Str (args_org_id ns),
                   Lit '', User: '', Str (args_user_id ns)] \<in> set pre
      \<and> Log INFO [Lit ''API key loaded successfully''] \<in> set pre
      \<and> (\<exists>st. fs (Path (args_file ns)) = Entry st
             \<and> Log INFO [Lit ''File validated: '', Str (args_file ns), Lit '' ('',
                          Fixed2 (st_size st) 1024, Lit ''KB)''] \<in> set pre)"
  proof (intro allI impI)
    fix pre req rest
    assume tr: "snd (main fs post ns) = pre @ HttpPost req # rest"
    then have "posts (snd (main fs post ns)) \<noteq> []"
      by (simp add: posts_simps)
    with 1 obtain k where t: "1 \<le> args_timeout ns" and c: "fst ?vc = Inr ()"
      and k: "fst (load_api_key fs (args_credentials ns)) = Inr k"
      and v: "fst (validate_file_path fs (args_file ns)) = Inr (Path (args_file ns))"
      by blast
    from v obtain st where f: "fs (Path (args_file ns)) = Entry st" "kind st = RegularFile"
      "r_ok st" "0 < st_size st" "st_size st \<le> 104857600"
      using validate_file_path_returned [of fs "args_file ns" "Path (args_file ns)"] by blast
    from main_trace [of ns fs k st post, OF t c k f] obtain X r0 Y where
      x: "snd (main fs post ns) = X @ HttpPost r0 # Y" and px: "posts X = []" and py: "posts Y = []"
      and lx: "Log INFO [Lit ''Configuration validated - Org: '', Str (args_org_id ns),
                   Lit '', User: '', Str (args_user_id ns)] \<in> set X"
        "Log INFO [Lit ''API key loaded successfully''] \<in> set X"
        "Log INFO [Lit ''File validated: '', Str (args_file ns), Lit '' ('',
                          Fixed2 (st_size st) 1024, Lit ''KB)''] \<in> set X"
      by blast
    from x tr have "X @ HttpPost r0 # Y = pre @ HttpPost req # rest" by simp
    with px py have "pre = X \<and> req = r0 \<and> rest = Y" by (rule posts_split_unique)
    with px py lx f(1) show "posts pre = [] \<and> posts rest = []
      \<and> Log INFO [Lit ''Configuration validated - Org: '', Str (args_org_id ns),
                   Lit '', User: '', Str (args_user_id ns)] \<in> set pre
      \<and> Log INFO [Lit ''API key loaded successfully''] \<in> set pre
      \<and> (\<exists>st. fs (Path (args_file ns)) = Entry st
             \<and> Log INFO [Lit ''File validated: '', Str (args_file ns), Lit '' ('',
                          Fixed2 (st_size st) 1024, Lit ''KB)''] \<in> set pre)"
      by blast
  qed
  have 3: "\<forall>st. fs (Path (args_file ns)) = Entry st \<and> 104857600 < st_size st \<longrightarrow>
        posts (snd (main fs post ns)) = []
      \<and> (1 \<le> args_timeout ns
           \<and> (\<forall>e. fst (load_api_key fs (args_credentials ns)) = Inl e \<longrightarrow>
                  (\<exists>m. e = ConfigurationError m)) \<longrightarrow>
         (\<exists>m. fst (main_try fs post ns) = Inl (ConfigurationError m))
         \<and> fst (main fs post ns) = Inr 1)"
  proof (intro allI impI, elim conjE)
    fix st
    assume f: "fs (Path (args_file ns)) = Entry st" and big: "104857600 < st_size st"
    from validate_file_path_too_large [of fs "args_file ns" st, OF f big] obtain m where
      v: "validate_file_path fs (args_file ns) = (Inl (ConfigurationError m), [])" ..
    have a: "posts (snd (main fs post ns)) = []"
      by (simp add: main_posts main_try_posts v split: sum.split)
    have b: "1 \<le> args_timeout ns
           \<and> (\<forall>e. fst (load_api_key fs (args_credentials ns)) = Inl e \<longrightarrow>
                  (\<exists>m. e = ConfigurationError m)) \<longrightarrow>
         (\<exists>m. fst (main_try fs post ns) = Inl (ConfigurationError m))
         \<and> fst (main fs post ns) = Inr 1"
    proof (intro impI, elim conjE)
      assume t: "1 \<le> args_timeout ns"
        and l: "\<forall>e. fst (load_api_key fs (args_credentials ns)) = Inl e \<longrightarrow>
                  (\<exists>m. e = ConfigurationError m)"
      have r: "\<exists>m. fst (main_try fs post ns) = Inl (ConfigurationError m)"
      proof (cases "fst ?vc")
        case (Inl e)
        with validate_configuration_raises [of "args_org_id ns" "args_user_id ns" "args_mentor_id ns" e]
        show ?thesis by (auto simp add: main_try_fst)
      next
        case c: (Inr u)
        show ?thesis
        proof (cases "fst (load_api_key fs (args_credentials ns))")
          case (Inl e)
          with l c show ?thesis by (auto simp add: main_try_fst)
        next
          case (Inr k)
          with c v show ?thesis by (simp add: main_try_fst)
        qed
      qed
      then obtain m' where "fst (main_try fs post ns) = Inl (ConfigurationError m')" ..
      with t have "fst (main fs post ns) = Inr 1"
        by (simp add: main_fst main_except_fst)
      with r show "(\<exists>m. fst (main_try fs post ns) = Inl (ConfigurationError m))
         \<and> fst (main fs post ns) = Inr 1" ..
    qed
    from a b show "posts (snd (main fs post ns)) = []
      \<and> (1 \<le> args_timeout ns
           \<and> (\<forall>e. fst (load_api_key fs (args_credentials ns)) = Inl e \<longrightarrow>
                  (\<exists>m. e = ConfigurationError m)) \<longrightarrow>
         (\<exists>m. fst (main_try fs post ns) = Inl (ConfigurationError m))
         \<and> fst (main fs post ns) = Inr 1)" ..
  qed
  from 1 2 3 show ?thesis by (intro conjI)
qed

text \<open>
  Two runs over one file system, the endpoint answering 201. For \<^verbatim>\<open>report.pdf\<close> the whole
  trace: the request is its sixteenth event, after the lines of the three validations. For
  \<^verbatim>\<open>big.pdf\<close>, of 104,857,601 bytes, no request is made and \<^verbatim>\<open>main\<close> returns 1.
\<close>

theorem main_no_early_post_witness:
  "(let fs = (\<lambda>p. if p = Path ''api_credentials.txt''
                   then Entry \<lparr>kind = RegularFile, r_ok = True, st_size = 17,
                               content = ''0123456789abcdef'' @ [CHR 0x0A],
                               decoded = Inr (''0123456789abcdef'' @ [CHR 0x0A])\<rparr>
                   else if p = Path ''report.pdf''
                   then Entry \<lparr>kind = RegularFile, r_ok = True, st_size = 5,
                               content = ''%PDF-'', decoded = Inr ''%PDF-''\<rparr>
                   else if p = Path ''big.pdf''
                   then Entry \<lparr>kind = RegularFile, r_ok = True, st_size = 104857601,
                               content = ''%PDF-'', decoded = Inr ''%PDF-''\<rparr>
                   else NoEntry);
        post = (\<lambda>req. Inr \<lparr>status_code = 201, body_text = ''{\"document_id\":\"abc123\"}'',
                             json = Inr (JObject [(''document_id'', JString ''abc123'')])\<rparr>);
        ns = \<lparr>args_org_id = ''syracuse'', args_user_id = ''jsmith'',
               args_mentor_id = ''25223e76-fc94-4cc2-aec1-f9fb51f0c2bf'',
               args_file = ''report.pdf'', args_credentials = ''api_credentials.txt'',
               args_base_url = ''https://base.manager.ai.syr.edu'', args_timeout = 300,
               args_verbose = False\<rparr>
    in snd (main fs post ns) =
         [Log INFO [Lit (replicate 60 (CHR ''=''))],
          Log INFO [Lit ''Document Upload Script Started''],
          Log INFO [Lit (replicate 60 (CHR ''=''))],
          Log INFO [Lit ''Organization: '', Str ''syracuse''],
          Log INFO [Lit ''User: '', Str ''jsmith''],
          Log INFO [Lit ''Mentor ID: '', Str ''25223e76-fc94-4cc2-aec1-f9fb51f0c2bf''],
          Log INFO [Lit ''File: '', Str ''report.pdf''],
          Log INFO [Lit ''Base URL: '', Str ''https://base.manager.ai.syr.edu''],
          Log INFO [Lit ''Timeout: '', Num 300, Lit ''s''],
          Log INFO [Lit ''Configuration validated - Org: '', Str ''syracuse'', Lit '', User: '',
                    Str ''jsmith''],
          Log INFO [Lit ''API key loaded successfully''],
          Log INFO [Lit ''File validated: '', Str ''report.pdf'', Lit '' ('', Fixed2 5 1024,
                    Lit ''KB)''],
          Log INFO [Lit ''Uploading document: '', Str ''report.pdf''],
          Log INFO [Lit ''Target URL: '',
                    Str ''https://base.manager.ai.syr.edu/api/ai-index/orgs/syracuse/users/jsmith/documents/train/''],
          Log INFO [Lit ''Document type: '', Str ''file'', Lit '', MIME type: '',
                    Str ''application/pdf'']] @
         HttpPost
           \<lparr> post_url = ''https://base.manager.ai.syr.edu/api/ai-index/orgs/syracuse/users/jsmith/documents/train/'',
              post_headers = [(''Authorization'', ''Api-Token 0123456789abcdef'')],
              post_files = [(''file'', ''report.pdf'', ''%PDF-'', ''application/pdf'')],
              post_data = [(''pathway'', ''25223e76-fc94-4cc2-aec1-f9fb51f0c2bf''),
                           (''type'', ''file''), (''name'', ''report.pdf'')],
              post_timeout = 300 \<rparr> #
         [Log INFO [Lit ''Upload successful!''],
          Log INFO [Lit ''Document ID: '', Val (JString ''abc123'')],
          Log INFO [Lit (replicate 60 (CHR ''=''))],
          Log INFO [Lit ''Script completed successfully!''],
          Log INFO [Lit (replicate 60 (CHR ''=''))]]
     \<and> fst (validate_file_path fs ''report.pdf'') = Inr (Path ''report.pdf'')
     \<and> posts (snd (main fs post (ns\<lparr>args_file := ''big.pdf''\<rparr>))) = []
     \<and> fst (main fs post (ns\<lparr>args_file := ''big.pdf''\<rparr>)) = Inr 1)"
proof -
  let ?cred = "\<lparr>kind = RegularFile, r_ok = True, st_size = 17,
                 content = ''0123456789abcdef'' @ [CHR 0x0A],
                 decoded = Inr (''0123456789abcdef'' @ [CHR 0x0A])\<rparr>"
  let ?doc = "\<lparr>kind = RegularFile, r_ok = True, st_size = 5,
                content = ''%PDF-'', decoded = Inr ''%PDF-''\<rparr>"
  let ?big = "\<lparr>kind = RegularFile, r_ok = True, st_size = 104857601,
                content = ''%PDF-'', decoded = Inr ''%PDF-''\<rparr>"
  let ?fs = "\<lambda>p. if p = Path ''api_credentials.txt'' then Entry ?cred
                 else if p = Path ''report.pdf'' then Entry ?doc
                 else if p = Path ''big.pdf'' then Entry ?big else NoEntry"
  let ?created = "\<lparr>status_code = 201, body_text = ''{\"document_id\":\"abc123\"}'',
                    json = Inr (JObject [(''document_id'', JString ''abc123'')])\<rparr>"
  let ?post = "\<lambda>req :: request. (Inr ?created :: exn + response)"
  let ?ns = "\<lparr>args_org_id = ''syracuse'', args_user_id = ''jsmith'',
               args_mentor_id = ''25223e76-fc94-4cc2-aec1-f9fb51f0c2bf'',
               args_file = ''report.pdf'', args_credentials = ''api_credentials.txt'',
               args_base_url = ''https://base.manager.ai.syr.edu'', args_timeout = 300,
               args_verbose = False\<rparr>"
  let ?ns' = "\<lparr>args_org_id = ''syracuse'', args_user_id = ''jsmith'',
               args_mentor_id = ''25223e76-fc94-4cc2-aec1-f9fb51f0c2bf'',
               args_file = ''big.pdf'', args_credentials = ''api_credentials.txt'',
               args_base_url = ''https://base.manager.ai.syr.edu'', args_timeout = 300,
               args_verbose = False\<rparr>"
  let ?req = "\<lparr> post_url = ''https://base.manager.ai.syr.edu/api/ai-index/orgs/syracuse/users/jsmith/documents/train/'',
              post_headers = [(''Authorization'', ''Api-Token 0123456789abcdef'')],
              post_files = [(''file'', ''report.pdf'', ''%PDF-'', ''application/pdf'')],
              post_data = [(''pathway'', ''25223e76-fc94-4cc2-aec1-f9fb51f0c2bf''),
                           (''type'', ''file''), (''name'', ''report.pdf'')],
              post_timeout = 300 \<rparr>"
  let ?pre = "[Log INFO [Lit (replicate 60 (CHR ''=''))],
          Log INFO [Lit ''Document Upload Script Started''],
          Log INFO [Lit (replicate 60 (CHR ''=''))],
          Log INFO [Lit ''Organization: '', Str ''syracuse''],
          Log INFO [Lit ''User: '', Str ''jsmith''],
          Log INFO [Lit ''Mentor ID: '', Str ''25223e76-fc94-4cc2-aec1-f9fb51f0c2bf''],
          Log INFO [Lit ''File: '', Str ''report.pdf''],
          Log INFO [Lit ''Base URL: '', Str ''https://base.manager.ai.syr.edu''],
          Log INFO [Lit ''Timeout: '', Num 300, Lit ''s''],
          Log INFO [Lit ''Configuration validated - Org: '', Str ''syracuse'', Lit '', User: '',
                    Str ''jsmith''],
          Log INFO [Lit ''API key loaded successfully''],
          Log INFO [Lit ''File validated: '', Str ''report.pdf'', Lit '' ('', Fixed2 5 1024,
                    Lit ''KB)''],
          Log INFO [Lit ''Uploading document: '', Str ''report.pdf''],
          Log INFO [Lit ''Target URL: '',
                    Str ''https://base.manager.ai.syr.edu/api/ai-index/orgs/syracuse/users/jsmith/documents/train/''],
          Log INFO [Lit ''Document type: '', Str ''file'', Lit '', MIME type: '',
                    Str ''application/pdf'']]"
  let ?rest = "[Log INFO [Lit ''Upload successful!''],
          Log INFO [Lit ''Document ID: '', Val (JString ''abc123'')],
          Log INFO [Lit (replicate 60 (CHR ''=''))],
          Log INFO [Lit ''Script completed successfully!''],
          Log INFO [Lit (replicate 60 (CHR ''=''))]]"
  have d: "Path ''report.pdf'' \<noteq> Path ''api_credentials.txt''"
    "Path ''big.pdf'' \<noteq> Path ''api_credentials.txt''"
    "Path ''big.pdf'' \<noteq> Path ''report.pdf''"
    by (simp_all add: Path_def)
  have s: "strip (readline (''0123456789abcdef'' @ [CHR 0x0A])) = ''0123456789abcdef''"
    by code_simp
  have k: "fst (load_api_key ?fs ''api_credentials.txt'') = Inr ''0123456789abcdef''"
    using s by (simp add: load_api_key_eq)
  have k': "load_api_key ?fs ''api_credentials.txt''
              = (Inr ''0123456789abcdef'', [Log INFO [Lit ''API key loaded successfully'']])"
    using k by (rule load_api_key_returned)
  have f: "?fs (Path ''report.pdf'') = Entry ?doc"
    using d by simp
  have v: "validate_file_path ?fs ''report.pdf''
             = (Inr (Path ''report.pdf''),
                [Log INFO [Lit ''File validated: '', Str ''report.pdf'', Lit '' ('', Fixed2 5 1024,
                           Lit ''KB)'']])"
    using f by (simp add: validate_file_path_eq)
  have c: "validate_configuration ''syracuse'' ''jsmith'' ''25223e76-fc94-4cc2-aec1-f9fb51f0c2bf''
             = (Inr (), [Log INFO [Lit ''Configuration validated - Org: '', Str ''syracuse'',
                                   Lit '', User: '', Str ''jsmith'']])"
    by (simp add: validate_configuration_eq)
  have n: "name (Path ''report.pdf'') = ''report.pdf''"
    by code_simp
  have m: "mime_type_of (lower (suffix (Path ''report.pdf''))) = ''application/pdf''"
    by code_simp
  have o: "open_read ?fs (Path ''report.pdf'') = (Inr ''%PDF-'', [])"
    using f by (simp add: open_read_def open_file_def run_simps)
  have h: "handle_response 300 (Inr ?created)
             = (Inr (JObject [(''document_id'', JString ''abc123'')]),
                [Log INFO [Lit ''Upload successful!''],
                 Log INFO [Lit ''Document ID: '', Val (JString ''abc123'')]])"
    by (simp add: handle_response_object)
  have u: "upload_document ?fs ?post ''syracuse'' ''jsmith'' ''25223e76-fc94-4cc2-aec1-f9fb51f0c2bf''
             (Path ''report.pdf'') ''0123456789abcdef'' ''https://base.manager.ai.syr.edu'' 300
           = (Inr (JObject [(''document_id'', JString ''abc123'')]),
              [Log INFO [Lit ''Uploading document: '', Str ''report.pdf''],
               Log INFO [Lit ''Target URL: '',
                    Str ''https://base.manager.ai.syr.edu/api/ai-index/orgs/syracuse/users/jsmith/documents/train/''],
               Log INFO [Lit ''Document type: '', Str ''file'', Lit '', MIME type: '',
                    Str ''application/pdf''],
               HttpPost ?req,
               Log INFO [Lit ''Upload successful!''],
               Log INFO [Lit ''Document ID: '', Val (JString ''abc123'')]])"
    by (simp add: upload_document_eq o n m h Let_def)
  have t: "main_try ?fs ?post ?ns
           = (Inr 0,
              [Log INFO [Lit ''Configuration validated - Org: '', Str ''syracuse'', Lit '', User: '',
                    Str ''jsmith''],
               Log INFO [Lit ''API key loaded successfully''],
               Log INFO [Lit ''File validated: '', Str ''report.pdf'', Lit '' ('', Fixed2 5 1024,
                    Lit ''KB)''],
               Log INFO [Lit ''Uploading document: '', Str ''report.pdf''],
               Log INFO [Lit ''Target URL: '',
                    Str ''https://base.manager.ai.syr.edu/api/ai-index/orgs/syracuse/users/jsmith/documents/train/''],
               Log INFO [Lit ''Document type: '', Str ''file'', Lit '', MIME type: '',
                    Str ''application/pdf''],
               HttpPost ?req,
               Log INFO [Lit ''Upload successful!''],
               Log INFO [Lit ''Document ID: '', Val (JString ''abc123'')],
               Log INFO [Lit (replicate 60 (CHR ''=''))],
               Log INFO [Lit ''Script completed successfully!''],
               Log INFO [Lit (replicate 60 (CHR ''=''))]])"
    by (simp add: main_try_eq c k' v u)
  have tr: "snd (main ?fs ?post ?ns) = ?pre @ HttpPost ?req # ?rest"
    by (simp add: main_eq catch_eq t)
  have p: "posts (snd (main ?fs ?post ?ns)) \<noteq> []"
    by (simp add: tr posts_simps)
  have w1: "fst (validate_file_path ?fs ''report.pdf'') = Inr (Path ''report.pdf'')"
    using main_no_early_post [of ?fs ?post ?ns, THEN conjunct1] p by simp
  have w2: "posts ?pre = [] \<and> posts ?rest = []"
    using main_no_early_post [of ?fs ?post ?ns, THEN conjunct2, THEN conjunct1] tr by blast
  have w3: "posts (snd (main ?fs ?post ?ns')) = [] \<and> fst (main ?fs ?post ?ns') = Inr 1"
    using main_no_early_post [of ?fs ?post ?ns', THEN conjunct2, THEN conjunct2, THEN spec, of ?big]
      k d
    by simp
  show ?thesis
    using tr w1 w2 w3 by (simp add: Let_def)
qed

text \<open>
  C7 as stated fails on how the run fails: with the timeout 0 and the file \<^verbatim>\<open>big.pdf\<close>, of
  104,857,601 bytes, the run ends in \<^verbatim>\<open>parse_arguments\<close> with \<^verbatim>\<open>SystemExit(2)\<close>. No
  \<^verbatim>\<open>ConfigurationError\<close> is raised, nothing is logged, and no request is made.
\<close>

theorem main_too_large_timeout_zero:
  "(let fs = (\<lambda>p. if p = Path ''api_credentials.txt''
                   then Entry \<lparr>kind = RegularFile, r_ok = True, st_size = 17,
                               content = ''0123456789abcdef'' @ [CHR 0x0A],
                               decoded = Inr (''0123456789abcdef'' @ [CHR 0x0A])\<rparr>
                   else if p = Path ''big.pdf''
                   then Entry \<lparr>kind = RegularFile, r_ok = True, st_size = 104857601,
                               content = ''%PDF-'', decoded = Inr ''%PDF-''\<rparr>
                   else NoEntry);
        post = (\<lambda>req. Inr \<lparr>status_code = 201, body_text = ''{\"document_id\":\"abc123\"}'',
                             json = Inr (JObject [(''document_id'', JString ''abc123'')])\<rparr>);
        ns = \<lparr>args_org_id = ''syracuse'', args_user_id = ''jsmith'',
               args_mentor_id = ''25223e76-fc94-4cc2-aec1-f9fb51f0c2bf'',
               args_file = ''big.pdf'', args_credentials = ''api_credentials.txt'',
               args_base_url = ''https://base.manager.ai.syr.edu'', args_timeout = 0,
               args_verbose = False\<rparr>
    in main fs post ns = (Inl (SystemExit 2), [])
     \<and> (\<forall>m. fst (main fs post ns) \<noteq> Inl (ConfigurationError m))
     \<and> (\<forall>m. fst (main_try fs post ns) = Inl (ConfigurationError m) \<longrightarrow>
           fst (main fs post ns) \<noteq> Inr 1))"
  by (simp add: Let_def main_eq)

subsection \<open>The API key and the log\<close>







end
